theory Spec2Isabelle
  imports Main
begin

section \<open>Strings of the Go standard library\<close>

text \<open>
  A Go string is a sequence of bytes; \<open>len\<close> counts bytes. It is modelled by
  \<^typ>\<open>string\<close>, whose characters are bytes and whose \<^const>\<open>length\<close> counts them.
\<close>

definition HasSuffix :: "string \<Rightarrow> string \<Rightarrow> bool" where
  \<comment> \<open>strings.HasSuffix(s, suffix)\<close>
  "HasSuffix s suffix \<longleftrightarrow>
     length suffix \<le> length s \<and> drop (length s - length suffix) s = suffix"

definition TrimSuffix :: "string \<Rightarrow> string \<Rightarrow> string" where
  \<comment> \<open>strings.TrimSuffix(s, suffix): s without the suffix when it ends with it, else s\<close>
  "TrimSuffix s suffix =
     (if HasSuffix s suffix then take (length s - length suffix) s else s)"

fun Split :: "string \<Rightarrow> char \<Rightarrow> string list" where
  \<comment> \<open>strings.Split(s, sep) for a separator of one byte (the source only splits on ".")\<close>
  "Split [] sep = [[]]"
| "Split (x # xs) sep =
     (if x = sep then [] # Split xs sep
      else (case Split xs sep of
              [] \<Rightarrow> [[x]]
            | l # ls \<Rightarrow> (x # l) # ls))"

fun Join :: "string list \<Rightarrow> string \<Rightarrow> string" where
  \<comment> \<open>strings.Join(elems, sep)\<close>
  "Join [] sep = []"
| "Join [x] sep = x"
| "Join (x # y # ys) sep = x @ sep @ Join (y # ys) sep"


section \<open>Data model\<close>

text \<open>
  \<open>inwx.NameserverRecord\<close>, \<open>inwx.NameserverRecordRequest\<close> and
  \<open>endpoint.Endpoint\<close>, with the fields the provider reads and writes. The TTL
  conversions \<open>int(ep.RecordTTL)\<close> and \<open>endpoint.TTL(rec.TTL)\<close> are between 64-bit
  integers and change nothing.
\<close>

record NameserverRecord =
  rec_ID :: string
  rec_Name :: string
  rec_Type :: string
  rec_Content :: string
  rec_TTL :: int
  rec_Priority :: int

record NameserverRecordRequest =
  req_Domain :: string
  req_Name :: string
  req_Type :: string
  req_TTL :: int
  req_Content :: string
  req_Priority :: int

record Endpoint =
  DNSName :: string
  Targets :: "string list"
  RecordType :: string
  RecordTTL :: int

datatype error =
    ZoneNotFound Endpoint
      \<comment> \<open>"unable find matching zone for the endpoint %s"\<close>
  | IncompleteMapping
      \<comment> \<open>"failed to map all endpoint targets to entries"\<close>
  | ErrorResponse int
      \<comment> \<open>an \<open>*inwx.ErrorResponse\<close> of the registrar, with its code\<close>
  | ClientError string
      \<comment> \<open>any other failure of the client\<close>
  | ZoneQueryFailed string error
      \<comment> \<open>"unable to query DNS zone info for zone '%v': %v"\<close>
  | AggregateFailure nat
      \<comment> \<open>"encountered %d errors while applying changes"\<close>


section \<open>Name resolver\<close>

function strip_loop :: "string list \<Rightarrow> string list \<Rightarrow> nat \<Rightarrow> nat" where
  \<comment> \<open>the loop of extractRecordName that counts the labels to strip\<close>
  "strip_loop nameLabels zoneLabels stripped =
     (if stripped < length zoneLabels \<and> stripped < length nameLabels - 1 then
        (if nameLabels ! (length nameLabels - 1 - stripped)
            = zoneLabels ! (length zoneLabels - 1 - stripped)
         then strip_loop nameLabels zoneLabels (stripped + 1)
         else stripped)
      else stripped)"
  by pat_completeness auto
termination
  by (relation "measure (\<lambda>(nameLabels, zoneLabels, stripped). length zoneLabels - stripped)") auto

declare strip_loop.simps [simp del]

definition extractRecordName :: "string \<Rightarrow> string \<Rightarrow> string" where
  "extractRecordName dnsName zone =
     (if dnsName = zone then ''''
      else
        (let name = TrimSuffix dnsName (''.'' @ zone);
             nameLabels = Split name (CHR ''.'');
             zoneLabels = Split zone (CHR ''.'');
             stripped = strip_loop nameLabels zoneLabels 0
         in if stripped > 0
            then Join (take (length nameLabels - stripped) nameLabels) ''.''
            else name))"

definition getZone_dot :: "Endpoint \<Rightarrow> string \<Rightarrow> string \<times> error option \<Rightarrow> string \<times> error option" where
  \<comment> \<open>body of the first loop of getZone\<close>
  "getZone_dot endpoint zone st =
     (case st of (matchZoneName, err) \<Rightarrow>
        if (DNSName endpoint = zone \<or> HasSuffix (DNSName endpoint) (''.'' @ zone))
           \<and> length zone > length matchZoneName
        then (zone, None)
        else (matchZoneName, err))"

definition getZone_hyphen :: "Endpoint \<Rightarrow> string \<Rightarrow> string \<times> error option \<Rightarrow> string \<times> error option" where
  \<comment> \<open>body of the second loop of getZone\<close>
  "getZone_hyphen endpoint zone st =
     (case st of (matchZoneName, err) \<Rightarrow>
        if HasSuffix (DNSName endpoint) (''-'' @ zone)
           \<and> length zone > length matchZoneName
        then (zone, None)
        else (matchZoneName, err))"

definition getZone :: "string list \<Rightarrow> Endpoint \<Rightarrow> string \<times> error option" where
  "getZone zones endpoint =
     (let st = fold (getZone_dot endpoint) zones ('''', Some (ZoneNotFound endpoint))
      in if fst st = ''''
         then fold (getZone_hyphen endpoint) zones st
         else st)"


section \<open>Record matcher\<close>

definition getRecIDs_inner ::
  "Endpoint \<Rightarrow> string \<Rightarrow> string \<Rightarrow> NameserverRecord \<Rightarrow> string list \<Rightarrow> string list" where
  \<comment> \<open>body of the inner loop of getRecIDs\<close>
  "getRecIDs_inner ep targetName target record recIDs =
     (if RecordType ep = rec_Type record \<and> target = rec_Content record
         \<and> rec_Name record = targetName
      then recIDs @ [rec_ID record]
      else recIDs)"

definition getRecIDs :: "string \<Rightarrow> NameserverRecord list \<Rightarrow> Endpoint \<Rightarrow> error + string list" where
  "getRecIDs zone records ep =
     (let targetName = extractRecordName (DNSName ep) zone;
          recIDs = fold (\<lambda>target. fold (getRecIDs_inner ep targetName target) records)
                        (Targets ep) []
      in if length recIDs \<noteq> length (Targets ep)
         then Inl IncompleteMapping
         else Inr recIDs)"

definition findRecordsByNameAndType ::
  "string \<Rightarrow> NameserverRecord list \<Rightarrow> string \<Rightarrow> string \<Rightarrow> NameserverRecord list" where
  "findRecordsByNameAndType zone records dnsName recordType =
     (let targetName = extractRecordName dnsName zone
      in fold (\<lambda>record matches.
                 if recordType = rec_Type record \<and> rec_Name record = targetName
                 then matches @ [record] else matches)
              records [])"

fun findExactRecord :: "NameserverRecord list \<Rightarrow> string \<Rightarrow> string" where
  "findExactRecord [] content = ''''"
| "findExactRecord (r # records) content =
     (if rec_Content r = content then rec_ID r else findExactRecord records content)"

section \<open>The registrar client\<close>

text \<open>
  \<open>AbstractClientWrapper\<close>: the seven operations the provider calls. The client is a
  parameter of the provider; an operation takes the state of the registrar and returns
  its answer with the new state.
\<close>

record 's ClientWrapper =
  login :: "'s \<Rightarrow> error option \<times> 's"
  logout :: "'s \<Rightarrow> error option \<times> 's"
  getZones :: "'s \<Rightarrow> (error + string list) \<times> 's"
  getRecords :: "string \<Rightarrow> 's \<Rightarrow> (error + NameserverRecord list) \<times> 's"
  createRecord :: "NameserverRecordRequest \<Rightarrow> 's \<Rightarrow> error option \<times> 's"
  updateRecord :: "string \<Rightarrow> NameserverRecordRequest \<Rightarrow> 's \<Rightarrow> error option \<times> 's"
  deleteRecord :: "string \<Rightarrow> 's \<Rightarrow> error option \<times> 's"

fun isObjectExistsError :: "error \<Rightarrow> bool" where
  "isObjectExistsError (ErrorResponse code) = (code = 2302)"
| "isObjectExistsError _ = False"

record Changes =
  Create :: "Endpoint list"
  UpdateOld :: "Endpoint list"
  UpdateNew :: "Endpoint list"
  Delete :: "Endpoint list"

definition HasChanges :: "Changes \<Rightarrow> bool" where
  \<comment> \<open>Modelled from the spec: \<open>plan.Changes.HasChanges\<close> belongs to the orchestrator's
      library; the spec says a change set with zero total changes has none.\<close>
  "HasChanges changes \<longleftrightarrow>
     Create changes \<noteq> [] \<or> UpdateOld changes \<noteq> [] \<or> UpdateNew changes \<noteq> []
     \<or> Delete changes \<noteq> []"

definition NewEndpointWithTTL :: "string \<Rightarrow> string \<Rightarrow> int \<Rightarrow> string \<Rightarrow> Endpoint" where
  \<comment> \<open>Modelled from the spec: \<open>endpoint.NewEndpointWithTTL\<close> belongs to the orchestrator's
      library; the spec says name, type, TTL and content are copied verbatim into an
      endpoint with one target.\<close>
  "NewEndpointWithTTL dnsName recordType ttl target =
     \<lparr>DNSName = dnsName, Targets = [target], RecordType = recordType, RecordTTL = ttl\<rparr>"

definition index :: "'a list \<Rightarrow> nat \<Rightarrow> 'a option" where
  \<comment> \<open>\<open>xs[j]\<close>: Go panics when the index is out of range, here \<open>None\<close>\<close>
  "index xs j = (if j < length xs then Some (xs ! j) else None)"


section \<open>State reader\<close>

definition Records_append :: "string \<Rightarrow> NameserverRecord \<Rightarrow> Endpoint list \<Rightarrow> Endpoint list" where
  \<comment> \<open>body of the inner loop of Records\<close>
  "Records_append zone rec endpoints =
     endpoints @ [NewEndpointWithTTL (rec_Name rec @ ''.'' @ zone) (rec_Type rec)
                                     (rec_TTL rec) (rec_Content rec)]"

fun Records_zones ::
  "'s ClientWrapper \<Rightarrow> string list \<Rightarrow> Endpoint list \<Rightarrow> 's \<Rightarrow> (error + Endpoint list) \<times> 's" where
  \<comment> \<open>the loop of Records over the zones; it returns at the first zone that cannot be read\<close>
  "Records_zones c [] endpoints s = (Inr endpoints, s)"
| "Records_zones c (zone # zones) endpoints s =
     (case getRecords c zone s of
        (Inl err, s') \<Rightarrow> (Inl (ZoneQueryFailed zone err), s')
      | (Inr records, s') \<Rightarrow>
          Records_zones c zones (fold (Records_append zone) records endpoints) s')"

definition Records :: "'s ClientWrapper \<Rightarrow> 's \<Rightarrow> (error + Endpoint list) \<times> 's" where
  "Records c s =
     (case login c s of
        (Some err, s1) \<Rightarrow> (Inl err, s1)
      | (None, s1) \<Rightarrow>
          (case (case getZones c s1 of
                   (Inl err, s2) \<Rightarrow> (Inl err, s2)
                 | (Inr zones, s2) \<Rightarrow> Records_zones c zones [] s2) of
             (result, s3) \<Rightarrow> (result, snd (logout c s3))))"


section \<open>Change planner\<close>

text \<open>
  One pass threads the state of the registrar, the list \<open>errs\<close> and the records cache
  of the running phase. \<open>None\<close> stands for a panic of the Go runtime (an index out of
  range).
\<close>

type_synonym recordsCache = "string \<Rightarrow> NameserverRecord list option"

definition cachedRecords ::
  "'s ClientWrapper \<Rightarrow> string \<Rightarrow> 's \<times> error list \<times> recordsCache
     \<Rightarrow> NameserverRecord list option \<times> ('s \<times> error list \<times> recordsCache)" where
  \<comment> \<open>the block that fills \<open>recordsCache[zone]\<close>; \<open>None\<close> is its \<open>continue\<close>\<close>
  "cachedRecords c zone st =
     (case st of (s, errs, cache) \<Rightarrow>
        (case cache zone of
           Some recs \<Rightarrow> (Some recs, st)
         | None \<Rightarrow>
             (case getRecords c zone s of
                (Inl err, s') \<Rightarrow> (None, (s', errs @ [err], cache))
              | (Inr recs, s') \<Rightarrow> (Some recs, (s', errs, cache(zone \<mapsto> recs))))))"

definition deleteID :: "'s ClientWrapper \<Rightarrow> string \<Rightarrow> 's \<times> error list \<Rightarrow> 's \<times> error list" where
  "deleteID c recID st =
     (case st of (s, errs) \<Rightarrow>
        (case deleteRecord c recID s of
           (Some err, s') \<Rightarrow> (s', errs @ [err])
         | (None, s') \<Rightarrow> (s', errs)))"

definition deleteEndpoint ::
  "'s ClientWrapper \<Rightarrow> string list \<Rightarrow> Endpoint \<Rightarrow> 's \<times> error list \<times> recordsCache
     \<Rightarrow> 's \<times> error list \<times> recordsCache" where
  \<comment> \<open>body of the loop over \<open>changes.Delete\<close>\<close>
  "deleteEndpoint c zones ep st =
     (case st of (s, errs, cache) \<Rightarrow>
        (case getZone zones ep of
           (zone, Some err) \<Rightarrow> (s, errs @ [err], cache)
         | (zone, None) \<Rightarrow>
             (case cachedRecords c zone st of
                (None, st') \<Rightarrow> st'
              | (Some recs, (s1, errs1, cache1)) \<Rightarrow>
                  (case getRecIDs zone recs ep of
                     Inl err \<Rightarrow> (s1, errs1 @ [err], cache1)
                   | Inr recIDs \<Rightarrow>
                       (case fold (deleteID c) recIDs (s1, errs1) of
                          (s2, errs2) \<Rightarrow> (s2, errs2, cache1))))))"

definition createRequest :: "string \<Rightarrow> string \<Rightarrow> string \<Rightarrow> int \<Rightarrow> string \<Rightarrow> NameserverRecordRequest" where
  \<comment> \<open>\<open>&inwx.NameserverRecordRequest{Domain, Name, Type, TTL, Content}\<close>; the priority
      is not set and is zero\<close>
  "createRequest zone name recordType ttl content =
     \<lparr>req_Domain = zone, req_Name = name, req_Type = recordType, req_TTL = ttl,
      req_Content = content, req_Priority = 0\<rparr>"

definition createOrExists ::
  "'s ClientWrapper \<Rightarrow> NameserverRecordRequest \<Rightarrow> 's \<times> error list \<Rightarrow> 's \<times> error list" where
  \<comment> \<open>\<open>createRecord\<close> with the error handling the three call sites share\<close>
  "createOrExists c rec st =
     (case st of (s, errs) \<Rightarrow>
        (case createRecord c rec s of
           (Some err, s') \<Rightarrow>
             if isObjectExistsError err then (s', errs) else (s', errs @ [err])
         | (None, s') \<Rightarrow> (s', errs)))"

definition createTarget ::
  "'s ClientWrapper \<Rightarrow> string \<Rightarrow> NameserverRecord list \<Rightarrow> Endpoint \<Rightarrow> string \<Rightarrow> string
     \<Rightarrow> 's \<times> error list \<Rightarrow> 's \<times> error list" where
  \<comment> \<open>body of the loop over \<open>ep.Targets\<close> in the Create phase\<close>
  "createTarget c zone records ep name target st =
     (case st of (s, errs) \<Rightarrow>
        (let existing = findRecordsByNameAndType zone records (DNSName ep) (RecordType ep);
             rec = createRequest zone name (RecordType ep) (RecordTTL ep) target
         in if findExactRecord existing target \<noteq> '''' then (s, errs)
            else if length existing = 1 \<and> length (Targets ep) = 1 then
              (case updateRecord c (rec_ID (existing ! 0)) rec s of
                 (Some err, s') \<Rightarrow> (s', errs @ [err])
               | (None, s') \<Rightarrow> (s', errs))
            else createOrExists c rec (s, errs)))"

definition createEndpoint ::
  "'s ClientWrapper \<Rightarrow> string list \<Rightarrow> Endpoint \<Rightarrow> 's \<times> error list \<times> recordsCache
     \<Rightarrow> 's \<times> error list \<times> recordsCache" where
  \<comment> \<open>body of the loop over \<open>changes.Create\<close>\<close>
  "createEndpoint c zones ep st =
     (case st of (s, errs, cache) \<Rightarrow>
        (case getZone zones ep of
           (zone, Some err) \<Rightarrow> (s, errs @ [err], cache)
         | (zone, None) \<Rightarrow>
             (case cachedRecords c zone st of
                (None, st') \<Rightarrow> st'
              | (Some recs, (s1, errs1, cache1)) \<Rightarrow>
                  (let name = extractRecordName (DNSName ep) zone
                   in case fold (createTarget c zone recs ep name) (Targets ep) (s1, errs1) of
                        (s2, errs2) \<Rightarrow> (s2, errs2, cache1)))))"

definition updateFallbackTarget ::
  "'s ClientWrapper \<Rightarrow> string \<Rightarrow> string \<Rightarrow> Endpoint \<Rightarrow> NameserverRecord list \<Rightarrow> string
     \<Rightarrow> 's \<times> error list \<Rightarrow> 's \<times> error list" where
  \<comment> \<open>body of the loop over \<open>newEp.Targets\<close> when the old records were not found\<close>
  "updateFallbackTarget c zone name newEp existing target st =
     (if findExactRecord existing target \<noteq> '''' then st
      else createOrExists c
             (createRequest zone name (RecordType newEp) (RecordTTL newEp) target) st)"

definition updateFallback ::
  "'s ClientWrapper \<Rightarrow> string \<Rightarrow> string \<Rightarrow> NameserverRecord list \<Rightarrow> Endpoint
     \<Rightarrow> 's \<times> error list \<Rightarrow> 's \<times> error list" where
  "updateFallback c zone name records newEp st =
     (let existing = findRecordsByNameAndType zone records (DNSName newEp) (RecordType newEp)
      in fold (updateFallbackTarget c zone name newEp existing) (Targets newEp) st)"

definition updatePairedIndex ::
  "'s ClientWrapper \<Rightarrow> string \<Rightarrow> string \<Rightarrow> Endpoint \<Rightarrow> Endpoint \<Rightarrow> string list \<Rightarrow> nat
     \<Rightarrow> 's \<times> error list \<Rightarrow> ('s \<times> error list) option" where
  \<comment> \<open>the \<open>switch\<close> in the loop over \<open>j\<close>\<close>
  "updatePairedIndex c zone name oldEp newEp recIDs j st =
     (case st of (s, errs) \<Rightarrow>
        if j \<ge> length (Targets newEp) then
          (case index recIDs j of
             None \<Rightarrow> None
           | Some recID \<Rightarrow>
               (case deleteRecord c recID s of
                  (Some err, s') \<Rightarrow>
                    (case index (Targets oldEp) j of
                       None \<Rightarrow> None
                     | Some target \<Rightarrow> Some (s', errs @ [err]))
                | (None, s') \<Rightarrow> Some (s', errs)))
        else if j \<ge> length (Targets oldEp) then
          (case index (Targets newEp) j of
             None \<Rightarrow> None
           | Some target \<Rightarrow>
               Some (createOrExists c
                       (createRequest zone name (RecordType newEp) (RecordTTL newEp) target)
                       (s, errs)))
        else
          (case index (Targets newEp) j of
             None \<Rightarrow> None
           | Some target \<Rightarrow>
               (case index recIDs j of
                  None \<Rightarrow> None
                | Some recID \<Rightarrow>
                    (case updateRecord c recID
                            (createRequest zone name (RecordType newEp) (RecordTTL oldEp) target) s of
                       (Some err, s') \<Rightarrow> Some (s', errs @ [err])
                     | (None, s') \<Rightarrow> Some (s', errs)))))"

definition updatePaired ::
  "'s ClientWrapper \<Rightarrow> string \<Rightarrow> string \<Rightarrow> Endpoint \<Rightarrow> Endpoint \<Rightarrow> string list
     \<Rightarrow> 's \<times> error list \<Rightarrow> ('s \<times> error list) option" where
  \<comment> \<open>\<open>for j := range max(len(oldEp.Targets), len(newEp.Targets), len(recIDs))\<close>\<close>
  "updatePaired c zone name oldEp newEp recIDs st =
     fold (\<lambda>j r. case r of
                   None \<Rightarrow> None
                 | Some st' \<Rightarrow> updatePairedIndex c zone name oldEp newEp recIDs j st')
          [0 ..< max (max (length (Targets oldEp)) (length (Targets newEp))) (length recIDs)]
          (Some st)"

definition updatePair ::
  "'s ClientWrapper \<Rightarrow> string list \<Rightarrow> Changes \<Rightarrow> nat \<times> Endpoint
     \<Rightarrow> 's \<times> error list \<times> recordsCache \<Rightarrow> ('s \<times> error list \<times> recordsCache) option" where
  \<comment> \<open>body of the loop over \<open>changes.UpdateOld\<close>\<close>
  "updatePair c zones changes io st =
     (case io of (i, oldEp) \<Rightarrow>
      case st of (s, errs, cache) \<Rightarrow>
        (case index (UpdateNew changes) i of
           None \<Rightarrow> None
         | Some newEp \<Rightarrow>
             (case getZone zones oldEp of
                (zone, Some err) \<Rightarrow> Some (s, errs @ [err], cache)
              | (zone, None) \<Rightarrow>
                  (case cachedRecords c zone st of
                     (None, st') \<Rightarrow> Some st'
                   | (Some recs, (s1, errs1, cache1)) \<Rightarrow>
                       (let name = extractRecordName (DNSName newEp) zone
                        in case getRecIDs zone recs oldEp of
                             Inl err \<Rightarrow>
                               (case updateFallback c zone name recs newEp (s1, errs1) of
                                  (s2, errs2) \<Rightarrow> Some (s2, errs2, cache1))
                           | Inr recIDs \<Rightarrow>
                               (case updatePaired c zone name oldEp newEp recIDs (s1, errs1) of
                                  None \<Rightarrow> None
                                | Some (s2, errs2) \<Rightarrow> Some (s2, errs2, cache1)))))))"

definition applyPhases ::
  "'s ClientWrapper \<Rightarrow> string list \<Rightarrow> Changes \<Rightarrow> 's \<Rightarrow> ('s \<times> error list) option" where
  \<comment> \<open>the three phases, each with an empty records cache of its own\<close>
  "applyPhases c zones changes s =
     (case fold (deleteEndpoint c zones) (Delete changes) (s, [], Map.empty) of
        (s1, errs1, cache1) \<Rightarrow>
     (case fold (createEndpoint c zones) (Create changes) (s1, errs1, Map.empty) of
        (s2, errs2, cache2) \<Rightarrow>
     (case fold (\<lambda>io r. case r of None \<Rightarrow> None | Some st \<Rightarrow> updatePair c zones changes io st)
                (enumerate 0 (UpdateOld changes)) (Some (s2, errs2, Map.empty)) of
        None \<Rightarrow> None
      | Some (s3, errs3, cache3) \<Rightarrow> Some (s3, errs3))))"

definition ApplyChanges ::
  "'s ClientWrapper \<Rightarrow> Changes \<Rightarrow> 's \<Rightarrow> (error option \<times> 's) option" where
  "ApplyChanges c changes s =
     (if \<not> HasChanges changes then Some (None, s)
      else
        (case login c s of
           (Some err, s1) \<Rightarrow> Some (Some err, s1)
         | (None, s1) \<Rightarrow>
             (case getZones c s1 of
                (Inl err, s2) \<Rightarrow> Some (Some err, snd (logout c s2))
              | (Inr zones, s2) \<Rightarrow>
                  (case applyPhases c zones changes s2 of
                     None \<Rightarrow> None
                   | Some (s3, errs) \<Rightarrow>
                       Some (if length errs > 0 then Some (AggregateFailure (length errs)) else None,
                             snd (logout c s3))))))"


section \<open>The calls a pass issues\<close>

text \<open>
  To speak about the calls the provider issues, a client is wrapped so that every
  operation appends itself and the error it answered to a log kept beside the state.
\<close>

datatype operation =
    Login
  | Logout
  | GetZones
  | GetRecords string
  | CreateRecord NameserverRecordRequest
  | UpdateRecord string NameserverRecordRequest
  | DeleteRecord string

type_synonym call = "operation \<times> error option"

fun failure :: "error + 'a \<Rightarrow> error option" where
  "failure (Inl err) = Some err"
| "failure (Inr x) = None"

definition logged :: "'s ClientWrapper \<Rightarrow> ('s \<times> call list) ClientWrapper" where
  "logged c =
     \<lparr>login = (\<lambda>(s, l). case login c s of (r, s') \<Rightarrow> (r, (s', l @ [(Login, r)]))),
      logout = (\<lambda>(s, l). case logout c s of (r, s') \<Rightarrow> (r, (s', l @ [(Logout, r)]))),
      getZones = (\<lambda>(s, l). case getZones c s of (r, s') \<Rightarrow> (r, (s', l @ [(GetZones, failure r)]))),
      getRecords = (\<lambda>zone (s, l). case getRecords c zone s of
                      (r, s') \<Rightarrow> (r, (s', l @ [(GetRecords zone, failure r)]))),
      createRecord = (\<lambda>rec (s, l). case createRecord c rec s of
                      (r, s') \<Rightarrow> (r, (s', l @ [(CreateRecord rec, r)]))),
      updateRecord = (\<lambda>recID rec (s, l). case updateRecord c recID rec s of
                      (r, s') \<Rightarrow> (r, (s', l @ [(UpdateRecord recID rec, r)]))),
      deleteRecord = (\<lambda>recID (s, l). case deleteRecord c recID s of
                      (r, s') \<Rightarrow> (r, (s', l @ [(DeleteRecord recID, r)])))\<rparr>"


section \<open>The in-memory client of the tests\<close>

text \<open>
  \<open>MockClientWrapper\<close>. The Go maps \<open>db\<close> and \<open>idToZone\<close> are association lists
  with one entry per key; Go leaves the order in which \<open>getZones\<close> lists the keys of
  \<open>db\<close> open, the model lists them in the order of the association list. The texts of
  the errors are kept without their arguments.
\<close>

record MockClientWrapper =
  db :: "(string \<times> NameserverRecord list) list"
  idToZone :: "(string \<times> string) list"

fun assign :: "'k \<Rightarrow> 'v \<Rightarrow> ('k \<times> 'v) list \<Rightarrow> ('k \<times> 'v) list" where
  \<comment> \<open>\<open>m[k] = v\<close>\<close>
  "assign k v [] = [(k, v)]"
| "assign k v (p # ps) = (if fst p = k then (k, v) # ps else p # assign k v ps)"

function Itoa_nat :: "nat \<Rightarrow> string" where
  \<comment> \<open>\<open>strconv.Itoa\<close> on a number that is not negative\<close>
  "Itoa_nat n =
     (if n < 10 then [''0123456789'' ! n]
      else Itoa_nat (n div 10) @ [''0123456789'' ! (n mod 10)])"
  by pat_completeness auto
termination
  by (relation "measure (\<lambda>n. n)") auto

declare Itoa_nat.simps [simp del]

definition mock_login :: "MockClientWrapper \<Rightarrow> error option \<times> MockClientWrapper" where
  "mock_login w = (None, w)"

definition mock_logout :: "MockClientWrapper \<Rightarrow> error option \<times> MockClientWrapper" where
  "mock_logout w = (None, w)"

definition mock_getRecords ::
  "string \<Rightarrow> MockClientWrapper \<Rightarrow> (error + NameserverRecord list) \<times> MockClientWrapper" where
  "mock_getRecords domain w =
     (case map_of (db w) domain of
        None \<Rightarrow> (Inl (ClientError ''unable to retrieve records for zone: key not found in mock db''), w)
      | Some recs \<Rightarrow> (Inr (filter (\<lambda>rec. rec_ID rec \<noteq> '''') recs), w))"

definition mock_getZones :: "MockClientWrapper \<Rightarrow> (error + string list) \<times> MockClientWrapper" where
  "mock_getZones w = (Inr (map fst (db w)), w)"

definition mock_createRecord ::
  "NameserverRecordRequest \<Rightarrow> MockClientWrapper \<Rightarrow> error option \<times> MockClientWrapper" where
  "mock_createRecord r w =
     (case map_of (db w) (req_Domain r) of
        None \<Rightarrow> (Some (ClientError ''zone not found''), w)
      | Some recs \<Rightarrow>
          (let recID = Itoa_nat (length recs);
               newRecs = recs @ [\<lparr>rec_ID = recID, rec_Name = req_Name r, rec_Type = req_Type r,
                                  rec_Content = req_Content r, rec_TTL = req_TTL r,
                                  rec_Priority = req_Priority r\<rparr>]
           in (None, w\<lparr>idToZone := assign recID (req_Domain r) (idToZone w),
                       db := assign (req_Domain r) newRecs (db w)\<rparr>)))"

fun findRecord :: "NameserverRecord list \<Rightarrow> string \<Rightarrow> nat option" where
  \<comment> \<open>the first index with the identifier; \<open>None\<close> is the \<open>-1\<close> of the source\<close>
  "findRecord [] recID = None"
| "findRecord (rec # recs) recID =
     (if rec_ID rec = recID then Some 0
      else (case findRecord recs recID of None \<Rightarrow> None | Some i \<Rightarrow> Some (Suc i)))"

definition mock_updateRecord ::
  "string \<Rightarrow> NameserverRecordRequest \<Rightarrow> MockClientWrapper \<Rightarrow> error option \<times> MockClientWrapper" where
  "mock_updateRecord recID r w =
     (case map_of (db w) (req_Domain r) of
        None \<Rightarrow> (Some (ClientError ''zone not found''), w)
      | Some recs \<Rightarrow>
          (case findRecord recs recID of
             None \<Rightarrow> (Some (ClientError ''record ID not found''), w)
           | Some idx \<Rightarrow>
               (None, w\<lparr>db := assign (req_Domain r)
                                (recs[idx := \<lparr>rec_ID = recID, rec_Name = req_Name r,
                                               rec_Type = req_Type r, rec_Content = req_Content r,
                                               rec_TTL = req_TTL r, rec_Priority = req_Priority r\<rparr>])
                                (db w)\<rparr>)))"

definition mock_deleteRecord ::
  "string \<Rightarrow> MockClientWrapper \<Rightarrow> error option \<times> MockClientWrapper" where
  "mock_deleteRecord recID w =
     (case map_of (idToZone w) recID of
        None \<Rightarrow> (Some (ClientError ''zone for record ID not found''), w)
      | Some zone \<Rightarrow>
          (case map_of (db w) zone of
             None \<Rightarrow> (Some (ClientError ''zone not found''), w)
           | Some recs \<Rightarrow>
               (case findRecord recs recID of
                  None \<Rightarrow> (Some (ClientError ''record ID not found''), w)
                | Some idx \<Rightarrow>
                    if rec_ID (recs ! idx) = ''''
                    then (Some (ClientError ''record ID has already been deleted''), w)
                    else (None, w\<lparr>db := assign zone (recs[idx := (recs ! idx)\<lparr>rec_ID := ''''\<rparr>])
                                                 (db w)\<rparr>))))"

definition CreateZone :: "string \<Rightarrow> MockClientWrapper \<Rightarrow> MockClientWrapper option" where
  \<comment> \<open>\<open>None\<close> is the panic on a zone that exists\<close>
  "CreateZone zone w =
     (case map_of (db w) zone of
        Some recs \<Rightarrow> None
      | None \<Rightarrow> Some (w\<lparr>db := assign zone [] (db w)\<rparr>))"

definition mock_client :: "MockClientWrapper ClientWrapper" where
  "mock_client =
     \<lparr>login = mock_login, logout = mock_logout, getZones = mock_getZones,
      getRecords = mock_getRecords, createRecord = mock_createRecord,
      updateRecord = mock_updateRecord, deleteRecord = mock_deleteRecord\<rparr>"


section \<open>Definitions of the specification\<close>

text \<open>
  The definitions of this section follow the words of the specification; the properties
  below compare the functions of the source with them.
\<close>

text \<open>
  The number of labels the specification of recordName strips: the trailing labels of
  the candidate, its first label left out, that equal the corresponding trailing labels
  of the zone.
\<close>

definition stripped_labels :: "string list \<Rightarrow> string list \<Rightarrow> nat" where
  \<comment> \<open>follows the specification of recordName, not the loop of the source\<close>
  "stripped_labels nl zl = length (takeWhile (\<lambda>(a, b). a = b) (zip (rev (tl nl)) (rev zl)))"

text \<open>
  The zone the specification of resolveZone selects: the longest zone that matches at a
  dot boundary, else the longest zone that matches after a hyphen; \<open>longest\<close> returns
  the first of the longest elements of a list.
\<close>

fun longest :: "string list \<Rightarrow> string" where
  \<comment> \<open>follows the specification: longest wins, ties resolved by first occurrence\<close>
  "longest [] = ''''"
| "longest (z # zs) = (if length (longest zs) > length z then longest zs else z)"

definition dot_match :: "string \<Rightarrow> string \<Rightarrow> bool" where
  "dot_match dnsName zone \<longleftrightarrow> dnsName = zone \<or> HasSuffix dnsName (''.'' @ zone)"

definition hyphen_match :: "string \<Rightarrow> string \<Rightarrow> bool" where
  "hyphen_match dnsName zone \<longleftrightarrow> HasSuffix dnsName (''-'' @ zone)"

definition resolveZone :: "string list \<Rightarrow> Endpoint \<Rightarrow> string \<times> error option" where
  \<comment> \<open>follows the specification of resolveZone, not the two passes of the source\<close>
  "resolveZone zones endpoint =
     (let dots = filter (dot_match (DNSName endpoint)) zones;
          hyphens = filter (hyphen_match (DNSName endpoint)) zones
      in if dots \<noteq> [] then (longest dots, None)
         else if hyphens \<noteq> [] then (longest hyphens, None)
         else ('''', Some (ZoneNotFound endpoint)))"

text \<open>
  The records the specification of matchTargetsToIdentifiers pairs with a target, the
  key under which live records are unique, and the identifiers collected in target order.
\<close>

definition matchesTarget :: "string \<Rightarrow> Endpoint \<Rightarrow> string \<Rightarrow> NameserverRecord \<Rightarrow> bool" where
  "matchesTarget zone ep target record \<longleftrightarrow>
     rec_Type record = RecordType ep
     \<and> rec_Name record = extractRecordName (DNSName ep) zone
     \<and> rec_Content record = target"

definition recordKey :: "NameserverRecord \<Rightarrow> string \<times> string \<times> string" where
  "recordKey record = (rec_Name record, rec_Type record, rec_Content record)"

definition uniqueRecords :: "NameserverRecord list \<Rightarrow> bool" where
  "uniqueRecords records \<longleftrightarrow> distinct (map recordKey records)"

definition collectedIDs :: "string \<Rightarrow> NameserverRecord list \<Rightarrow> Endpoint \<Rightarrow> string list" where
  "collectedIDs zone records ep =
     concat (map (\<lambda>target. map rec_ID (filter (matchesTarget zone ep target) records)) (Targets ep))"

text \<open>The endpoint the state reader builds from a record of a zone.\<close>

definition observed :: "string \<Rightarrow> NameserverRecord \<Rightarrow> Endpoint" where
  "observed zone rec =
     \<lparr>DNSName = rec_Name rec @ ''.'' @ zone, Targets = [rec_Content rec],
      RecordType = rec_Type rec, RecordTTL = rec_TTL rec\<rparr>"

text \<open>
  The errors a pass records for the calls it issued: every error a call answered, except
  an object-exists error answered to a create. \<open>pairedOperation\<close> is the call the
  specification prescribes for index \<open>j\<close> of a paired update.
\<close>

definition recordedErrors :: "call list \<Rightarrow> error list" where
  "recordedErrors calls =
     concat (map (\<lambda>(op, r). case r of
                    None \<Rightarrow> []
                  | Some err \<Rightarrow>
                      (case op of
                         CreateRecord rec \<Rightarrow> if isObjectExistsError err then [] else [err]
                       | _ \<Rightarrow> [err])) calls)"

definition pairedOperation ::
  "string \<Rightarrow> string \<Rightarrow> Endpoint \<Rightarrow> Endpoint \<Rightarrow> string list \<Rightarrow> nat \<Rightarrow> operation" where
  "pairedOperation zone name oldEp newEp recIDs j =
     (if j \<ge> length (Targets newEp) then DeleteRecord (recIDs ! j)
      else if j \<ge> length (Targets oldEp) then
        CreateRecord \<lparr>req_Domain = zone, req_Name = name, req_Type = RecordType newEp,
                      req_TTL = RecordTTL newEp, req_Content = Targets newEp ! j,
                      req_Priority = 0\<rparr>
      else
        UpdateRecord (recIDs ! j)
                     \<lparr>req_Domain = zone, req_Name = name, req_Type = RecordType newEp,
                      req_TTL = RecordTTL oldEp, req_Content = Targets newEp ! j,
                      req_Priority = 0\<rparr>)"

text \<open>
  The key of a request, and the records the in-memory registrar lists for a zone.
\<close>

definition requestKey :: "NameserverRecordRequest \<Rightarrow> string \<times> string \<times> string" where
  "requestKey rec = (req_Name rec, req_Type rec, req_Content rec)"

definition liveRecords :: "MockClientWrapper \<Rightarrow> string \<Rightarrow> NameserverRecord list" where
  "liveRecords w zone = (case fst (mock_getRecords zone w) of Inl err \<Rightarrow> [] | Inr recs \<Rightarrow> recs)"


section \<open>Example data\<close>

text \<open>Records, endpoints, change sets and registrar states used in the examples.\<close>

definition rec_foo_1 :: NameserverRecord where
  "rec_foo_1 = \<lparr>rec_ID = ''1'', rec_Name = ''foo'', rec_Type = ''A'', rec_Content = ''1.1.1.1'', rec_TTL = 60, rec_Priority = 0\<rparr>"

definition rec_foo_2 :: NameserverRecord where
  "rec_foo_2 = \<lparr>rec_ID = ''2'', rec_Name = ''foo'', rec_Type = ''A'', rec_Content = ''1.1.1.1'', rec_TTL = 60, rec_Priority = 0\<rparr>"

definition ep_foo_two :: Endpoint where
  "ep_foo_two = \<lparr>DNSName = ''foo.example.com'', Targets = [''1.1.1.1'', ''2.2.2.2''], RecordType = ''A'', RecordTTL = 60\<rparr>"

definition ep_foo_sub :: Endpoint where
  "ep_foo_sub = \<lparr>DNSName = ''foo.subdomain.bar.org'', Targets = [''1.1.1.1''], RecordType = ''A'', RecordTTL = 0\<rparr>"

definition ep_hyphen :: Endpoint where
  "ep_hyphen = \<lparr>DNSName = ''f-oo.'', Targets = [''1.1.1.1''], RecordType = ''A'', RecordTTL = 0\<rparr>"

definition w_two :: MockClientWrapper where
  "w_two = \<lparr>db = [(''example.com'',
                   [\<lparr>rec_ID = ''0'', rec_Name = ''foo'', rec_Type = ''A'', rec_Content = ''1.1.1.1'', rec_TTL = 60, rec_Priority = 0\<rparr>,
                    \<lparr>rec_ID = '''', rec_Name = ''gone'', rec_Type = ''A'', rec_Content = ''9.9.9.9'', rec_TTL = 60, rec_Priority = 0\<rparr>,
                    \<lparr>rec_ID = ''2'', rec_Name = ''foo'', rec_Type = ''A'', rec_Content = ''2.2.2.2'', rec_TTL = 300, rec_Priority = 0\<rparr>]),
                 (''bar.org'',
                   [\<lparr>rec_ID = ''0'', rec_Name = '''', rec_Type = ''TXT'', rec_Content = ''hello'', rec_TTL = 0, rec_Priority = 0\<rparr>])],
            idToZone = [(''0'', ''bar.org''), (''2'', ''example.com'')]\<rparr>"

definition ep_foo_one :: Endpoint where
  "ep_foo_one = \<lparr>DNSName = ''foo.example.com'', Targets = [''1.1.1.1''], RecordType = ''A'', RecordTTL = 60\<rparr>"

definition w_ab :: MockClientWrapper where
  "w_ab = \<lparr>db = [(''example.com'',
                   [\<lparr>rec_ID = ''0'', rec_Name = ''foo'', rec_Type = ''A'', rec_Content = ''1.1.1.1'', rec_TTL = 60, rec_Priority = 0\<rparr>,
                    \<lparr>rec_ID = ''1'', rec_Name = ''foo'', rec_Type = ''A'', rec_Content = ''2.2.2.2'', rec_TTL = 60, rec_Priority = 0\<rparr>])],
           idToZone = [(''0'', ''example.com''), (''1'', ''example.com'')]\<rparr>"


definition w_empty :: MockClientWrapper where
  "w_empty = \<lparr>db = [(''example.com'', [])], idToZone = []\<rparr>"

definition changes_update :: Changes where
  "changes_update = \<lparr>Create = [], UpdateOld = [ep_foo_one], UpdateNew = [ep_foo_two], Delete = []\<rparr>"

definition w_one :: MockClientWrapper where
  "w_one = \<lparr>db = [(''example.com'',
                   [\<lparr>rec_ID = ''0'', rec_Name = ''foo'', rec_Type = ''A'', rec_Content = ''1.1.1.1'', rec_TTL = 60, rec_Priority = 0\<rparr>])],
           idToZone = [(''0'', ''example.com'')]\<rparr>"

definition ep_foo_new :: Endpoint where
  "ep_foo_new = \<lparr>DNSName = ''foo.example.com'', Targets = [''2.2.2.2''], RecordType = ''A'', RecordTTL = 300\<rparr>"

definition changes_create_twice :: Changes where
  "changes_create_twice = \<lparr>Create = [ep_foo_one, ep_foo_one], UpdateOld = [], UpdateNew = [], Delete = []\<rparr>"

section \<open>Properties of the name resolver\<close>

lemma Split_ne: "Split s c \<noteq> []"
  by (induction s) (auto split: list.splits)

lemma Join_Split: "Join (Split s c) [c] = s"
proof (induction s)
  case Nil show ?case by simp
next
  case (Cons x xs)
  then show ?case using Split_ne[of xs c]
    by (cases "Split xs c"; cases "tl (Split xs c)") (auto split: list.splits)
qed

lemma strip_loop_gen:
  "i \<le> length (zip (rev (tl nl)) (rev zl)) \<Longrightarrow>
   strip_loop nl zl i = i + length (takeWhile (\<lambda>(a, b). a = b) (drop i (zip (rev (tl nl)) (rev zl))))"
proof (induction nl zl i rule: strip_loop.induct)
  case (1 nl zl i)
  let ?zs = "zip (rev (tl nl)) (rev zl)"
  show ?case
  proof (cases "i < length zl \<and> i < length nl - 1")
    case False
    then have "i \<ge> length ?zs" by auto
    then have "drop i ?zs = []" by simp
    moreover have "strip_loop nl zl i = i"
      using False by (subst strip_loop.simps) auto
    ultimately show ?thesis by simp
  next
    case True
    then have il: "i < length ?zs" by simp
    have n1: "rev (tl nl) ! i = nl ! (length nl - 1 - i)"
    proof -
      have "rev (tl nl) ! i = tl nl ! (length nl - Suc (Suc i))"
        using True by (simp add: rev_nth)
      also have "\<dots> = nl ! Suc (length nl - Suc (Suc i))"
        using True by (intro nth_tl) (simp, arith)
      also have "Suc (length nl - Suc (Suc i)) = length nl - 1 - i"
        using True by arith
      finally show ?thesis .
    qed
    have n2: "rev zl ! i = zl ! (length zl - 1 - i)"
      using True by (simp add: rev_nth)
    have d: "drop i ?zs = (?zs ! i) # drop (Suc i) ?zs"
      by (rule Cons_nth_drop_Suc[OF il, symmetric])
    have z: "?zs ! i = (nl ! (length nl - 1 - i), zl ! (length zl - 1 - i))"
      using il n1 n2 by simp
    show ?thesis
    proof (cases "nl ! (length nl - 1 - i) = zl ! (length zl - 1 - i)")
      case eq: True
      have "strip_loop nl zl i = strip_loop nl zl (i + 1)"
        using True eq by (subst strip_loop.simps) auto
      also have "\<dots> = (i + 1) + length (takeWhile (\<lambda>(a, b). a = b) (drop (i + 1) ?zs))"
        using "1.IH"[OF True eq] il by simp
      finally show ?thesis using d z eq by simp
    next
      case neq: False
      have "strip_loop nl zl i = i"
        using True neq by (subst strip_loop.simps) auto
      then show ?thesis using d z neq by simp
    qed
  qed
qed

lemma strip_loop_eq: "strip_loop nl zl 0 = stripped_labels nl zl"
  using strip_loop_gen[of 0 nl zl] by (simp add: stripped_labels_def)

lemma stripped_labels_less: "nl \<noteq> [] \<Longrightarrow> stripped_labels nl zl < length nl"
proof -
  assume "nl \<noteq> []"
  have "stripped_labels nl zl \<le> length (zip (rev (tl nl)) (rev zl))"
    unfolding stripped_labels_def by (rule length_takeWhile_le)
  also have "\<dots> \<le> length nl - 1" by simp
  finally show ?thesis using \<open>nl \<noteq> []\<close> by (cases nl) auto
qed

lemma stripped_labels_le: "stripped_labels nl zl \<le> length zl"
proof -
  have "stripped_labels nl zl \<le> length (zip (rev (tl nl)) (rev zl))"
    unfolding stripped_labels_def by (rule length_takeWhile_le)
  also have "\<dots> \<le> length zl" by simp
  finally show ?thesis .
qed

lemma zip_rev_nth:
  assumes "i < length zl" "Suc i < length nl"
  shows "zip (rev (tl nl)) (rev zl) ! i = (nl ! (length nl - 1 - i), zl ! (length zl - 1 - i))"
proof -
  have "rev (tl nl) ! i = tl nl ! (length nl - Suc (Suc i))"
    using assms by (simp add: rev_nth)
  also have "\<dots> = nl ! Suc (length nl - Suc (Suc i))"
    using assms by (intro nth_tl) (cases nl; simp; arith)
  also have "Suc (length nl - Suc (Suc i)) = length nl - 1 - i"
    using assms by arith
  finally have n1: "rev (tl nl) ! i = nl ! (length nl - 1 - i)" .
  have n2: "rev zl ! i = zl ! (length zl - 1 - i)"
    using assms by (simp add: rev_nth)
  show ?thesis using assms n1 n2 by simp
qed

lemma stripped_labels_equal:
  assumes "i < stripped_labels nl zl"
  shows "nl ! (length nl - 1 - i) = zl ! (length zl - 1 - i)"
proof -
  let ?zs = "zip (rev (tl nl)) (rev zl)"
  let ?P = "\<lambda>(a, b). a = b"
  have i: "i < length (takeWhile ?P ?zs)" using assms by (simp add: stripped_labels_def)
  have "length (takeWhile ?P ?zs) \<le> length ?zs" by (rule length_takeWhile_le)
  with i have il: "i < length ?zs" by simp
  have "takeWhile ?P ?zs ! i \<in> set (takeWhile ?P ?zs)"
    using i by (rule nth_mem)
  then have "?P (takeWhile ?P ?zs ! i)"
    by (rule set_takeWhileD[THEN conjunct2])
  then have "?P (?zs ! i)" using i by (simp add: takeWhile_nth)
  moreover have "?zs ! i = (nl ! (length nl - 1 - i), zl ! (length zl - 1 - i))"
    using il by (intro zip_rev_nth) auto
  ultimately show ?thesis by simp
qed

lemma stripped_labels_maximal:
  assumes "stripped_labels nl zl < length zl" "Suc (stripped_labels nl zl) < length nl"
  shows "nl ! (length nl - 1 - stripped_labels nl zl) \<noteq> zl ! (length zl - 1 - stripped_labels nl zl)"
proof -
  let ?zs = "zip (rev (tl nl)) (rev zl)"
  let ?P = "\<lambda>(a, b). a = b"
  let ?k = "stripped_labels nl zl"
  have k: "?k = length (takeWhile ?P ?zs)" by (simp add: stripped_labels_def)
  have "?k < length ?zs" using assms by simp
  then have "\<not> ?P (?zs ! ?k)" unfolding k by (rule nth_length_takeWhile)
  moreover have "?zs ! ?k = (nl ! (length nl - 1 - ?k), zl ! (length zl - 1 - ?k))"
    using assms by (intro zip_rev_nth) auto
  ultimately show ?thesis by simp
qed

lemma extractRecordName_Join:
  assumes "dnsName \<noteq> zone"
  shows "extractRecordName dnsName zone =
     Join (take (length (Split (TrimSuffix dnsName (''.'' @ zone)) (CHR ''.''))
                  - stripped_labels (Split (TrimSuffix dnsName (''.'' @ zone)) (CHR ''.''))
                                    (Split zone (CHR ''.'')))
                (Split (TrimSuffix dnsName (''.'' @ zone)) (CHR ''.''))) ''.''"
  using assms Join_Split[of "TrimSuffix dnsName (''.'' @ zone)" "CHR ''.''"]
  by (simp add: extractRecordName_def Let_def strip_loop_eq)

text \<open>
  Claim C7. \<open>extractRecordName\<close> returns the empty string when the DNS name is the
  zone. Otherwise it takes the DNS name without the suffix \<open>"." + zone\<close> as candidate and
  drops \<open>k\<close> trailing labels of it, where the last \<open>k\<close> labels of the candidate equal
  the last \<open>k\<close> labels of the zone, at least one label of the candidate remains, and
  \<open>k\<close> is the largest such number. The two examples of the specification hold.
\<close>

theorem extractRecordName_labels:
  "extractRecordName zone zone = '''' \<and>
   (dnsName \<noteq> zone \<longrightarrow>
      (let nl = Split (TrimSuffix dnsName (''.'' @ zone)) (CHR ''.'');
           zl = Split zone (CHR ''.'');
           k = stripped_labels nl zl
       in extractRecordName dnsName zone = Join (take (length nl - k) nl) ''.''
          \<and> k < length nl \<and> k \<le> length zl
          \<and> (\<forall>i<k. nl ! (length nl - 1 - i) = zl ! (length zl - 1 - i))
          \<and> (k < length zl \<and> Suc k < length nl \<longrightarrow>
                nl ! (length nl - 1 - k) \<noteq> zl ! (length zl - 1 - k)))) \<and>
   extractRecordName ''_edns.a-example.com.example.com'' ''example.com'' = ''_edns.a-example'' \<and>
   extractRecordName ''foo.example.com'' ''example.com'' = ''foo''"
proof (intro conjI impI)
  show "extractRecordName zone zone = ''''" by (simp add: extractRecordName_def)
next
  assume ne: "dnsName \<noteq> zone"
  let ?nl = "Split (TrimSuffix dnsName (''.'' @ zone)) (CHR ''.'')"
  let ?zl = "Split zone (CHR ''.'')"
  let ?k = "stripped_labels ?nl ?zl"
  have 1: "extractRecordName dnsName zone = Join (take (length ?nl - ?k) ?nl) ''.''"
    by (rule extractRecordName_Join[OF ne])
  have 2: "?k < length ?nl" by (rule stripped_labels_less[OF Split_ne])
  have 3: "?k \<le> length ?zl" by (rule stripped_labels_le)
  have 4: "\<forall>i<?k. ?nl ! (length ?nl - 1 - i) = ?zl ! (length ?zl - 1 - i)"
    using stripped_labels_equal by blast
  have 5: "?k < length ?zl \<and> Suc ?k < length ?nl \<longrightarrow>
             ?nl ! (length ?nl - 1 - ?k) \<noteq> ?zl ! (length ?zl - 1 - ?k)"
    using stripped_labels_maximal by blast
  show "let nl = Split (TrimSuffix dnsName (''.'' @ zone)) (CHR ''.'');
           zl = Split zone (CHR ''.'');
           k = stripped_labels nl zl
       in extractRecordName dnsName zone = Join (take (length nl - k) nl) ''.''
          \<and> k < length nl \<and> k \<le> length zl
          \<and> (\<forall>i<k. nl ! (length nl - 1 - i) = zl ! (length zl - 1 - i))
          \<and> (k < length zl \<and> Suc k < length nl \<longrightarrow>
                nl ! (length nl - 1 - k) \<noteq> zl ! (length zl - 1 - k))"
    unfolding Let_def using 1 2 3 4 5 by (intro conjI)
next
  show "extractRecordName ''_edns.a-example.com.example.com'' ''example.com'' = ''_edns.a-example''"
    by code_simp
next
  show "extractRecordName ''foo.example.com'' ''example.com'' = ''foo''"
    by code_simp
qed

theorem extractRecordName_labels_witness:
  "extractRecordName ''www.a.example.com'' ''example.com'' = ''www.a''
   \<and> stripped_labels [''www'', ''a''] [''example'', ''com''] = 0"
proof -
  have ne: "''www.a.example.com'' \<noteq> ''example.com''" by simp
  have s: "Split (TrimSuffix ''www.a.example.com'' (''.'' @ ''example.com'')) (CHR ''.'') = [''www'', ''a'']"
    by code_simp
  have z: "Split ''example.com'' (CHR ''.'') = [''example'', ''com'']" by code_simp
  have k: "stripped_labels [''www'', ''a''] [''example'', ''com''] = 0"
    by (simp add: stripped_labels_def)
  from extractRecordName_labels[of "''example.com''" "''www.a.example.com''"] ne
  show ?thesis
    unfolding Let_def s z k by simp
qed

lemma hd_Split: "s \<noteq> [] \<Longrightarrow> hd s \<noteq> c \<Longrightarrow> hd (Split s c) \<noteq> []"
  by (cases s) (auto split: list.splits)

lemma Join_nonempty: "xs \<noteq> [] \<Longrightarrow> hd xs \<noteq> [] \<Longrightarrow> Join xs sep \<noteq> []"
  by (induction xs sep rule: Join.induct) auto

lemma TrimSuffix_head:
  assumes "d \<noteq> []" "hd d \<noteq> CHR ''.''"
  shows "TrimSuffix d (''.'' @ z) \<noteq> [] \<and> hd (TrimSuffix d (''.'' @ z)) = hd d"
proof (cases "HasSuffix d (''.'' @ z)")
  case False then show ?thesis using assms by (simp add: TrimSuffix_def)
next
  case True
  then have dr: "drop (length d - Suc (length z)) d = CHR ''.'' # z"
    by (auto simp: HasSuffix_def)
  have "length d - Suc (length z) \<noteq> 0"
  proof
    assume "length d - Suc (length z) = 0"
    with dr have "d = CHR ''.'' # z" by simp
    with assms show False by simp
  qed
  then show ?thesis using True assms by (cases d) (auto simp: TrimSuffix_def hd_take)
qed

text \<open>
  Claim C8, as amended. For a DNS name that differs from the zone, is not empty and does
  not begin with a dot, \<open>extractRecordName\<close> never returns the empty string; and for
  every DNS name the loop strips fewer labels than the candidate has, so that at least
  one label of the candidate remains.
\<close>

theorem extractRecordName_nonempty:
  "(dnsName \<noteq> zone \<and> dnsName \<noteq> '''' \<and> hd dnsName \<noteq> CHR ''.''
      \<longrightarrow> extractRecordName dnsName zone \<noteq> '''')
   \<and> strip_loop (Split (TrimSuffix dnsName (''.'' @ zone)) (CHR ''.'')) (Split zone (CHR ''.'')) 0
         < length (Split (TrimSuffix dnsName (''.'' @ zone)) (CHR ''.''))"
proof (intro conjI impI)
  let ?cand = "TrimSuffix dnsName (''.'' @ zone)"
  let ?nl = "Split ?cand (CHR ''.'')"
  let ?k = "stripped_labels ?nl (Split zone (CHR ''.''))"
  have k: "?k < length ?nl" by (rule stripped_labels_less[OF Split_ne])
  then show "strip_loop ?nl (Split zone (CHR ''.'')) 0 < length ?nl"
    by (simp add: strip_loop_eq)
  assume a: "dnsName \<noteq> zone \<and> dnsName \<noteq> '''' \<and> hd dnsName \<noteq> CHR ''.''"
  then have c: "?cand \<noteq> []" "hd ?cand \<noteq> CHR ''.''"
    using TrimSuffix_head[of dnsName zone] by auto
  have h: "hd ?nl \<noteq> []" using c by (rule hd_Split)
  have "take (length ?nl - ?k) ?nl \<noteq> []" using k Split_ne[of ?cand] by simp
  moreover have "hd (take (length ?nl - ?k) ?nl) \<noteq> []" using k h by (simp add: hd_take)
  ultimately have "Join (take (length ?nl - ?k) ?nl) ''.'' \<noteq> []" by (rule Join_nonempty)
  then show "extractRecordName dnsName zone \<noteq> ''''"
    using extractRecordName_Join[of dnsName zone] a by simp
qed

theorem extractRecordName_nonempty_witness:
  "extractRecordName ''foo.example.com'' ''example.com'' \<noteq> ''''"
  using extractRecordName_nonempty[of "''foo.example.com''" "''example.com''"] by simp

theorem extractRecordName_empty_counterexample:
  "''.example.com'' \<noteq> ''example.com'' \<and> extractRecordName ''.example.com'' ''example.com'' = ''''"
  by code_simp

section \<open>Properties of zone resolution\<close>

lemma longest_mem_or: "longest zs \<in> set zs \<or> zs = []"
  by (induction zs) auto

lemma longest_mem: "zs \<noteq> [] \<Longrightarrow> longest zs \<in> set zs"
  using longest_mem_or[of zs] by simp

lemma longest_max: "z \<in> set zs \<Longrightarrow> length z \<le> length (longest zs)"
  by (induction zs) (auto split: if_splits)

lemma longest_first:
  "zs \<noteq> [] \<Longrightarrow> \<exists>i<length zs. zs ! i = longest zs
      \<and> (\<forall>j<i. length (zs ! j) < length (longest zs))"
proof (induction zs)
  case Nil then show ?case by simp
next
  case (Cons z zs)
  show ?case
  proof (cases "length (longest zs) > length z")
    case False
    then have "(z # zs) ! 0 = longest (z # zs)" by simp
    then show ?thesis by (intro exI[of _ 0]) simp
  next
    case True
    then have ne: "zs \<noteq> []" by (cases zs) auto
    from Cons.IH[OF ne] obtain i where i: "i < length zs" "zs ! i = longest zs"
      "\<forall>j<i. length (zs ! j) < length (longest zs)" by blast
    have "\<forall>j<Suc i. length ((z # zs) ! j) < length (longest (z # zs))"
      using True i(3) by (auto simp: less_Suc_eq_0_disj)
    then show ?thesis using True i(1,2) by (intro exI[of _ "Suc i"]) simp
  qed
qed

lemma fold_longest:
  "fold (\<lambda>zone st. case st of (m, err) \<Rightarrow>
           if P zone \<and> length zone > length m then (zone, None) else (m, err)) zs (m, e)
   = (if length (longest (filter P zs)) > length m then (longest (filter P zs), None) else (m, e))"
proof (induction zs arbitrary: m e)
  case Nil show ?case by simp
next
  case (Cons z zs)
  show ?case by (simp add: Cons.IH) 
qed

lemma getZone_dot_eq:
  "getZone_dot ep = (\<lambda>zone st. case st of (m, err) \<Rightarrow>
           if dot_match (DNSName ep) zone \<and> length zone > length m then (zone, None) else (m, err))"
  by (intro ext) (simp add: getZone_dot_def dot_match_def)

lemma getZone_hyphen_eq:
  "getZone_hyphen ep = (\<lambda>zone st. case st of (m, err) \<Rightarrow>
           if hyphen_match (DNSName ep) zone \<and> length zone > length m then (zone, None) else (m, err))"
  by (intro ext) (simp add: getZone_hyphen_def hyphen_match_def)

lemma longest_filter_empty:
  "'''' \<notin> set zones \<Longrightarrow> length (longest (filter P zones)) > 0 \<longleftrightarrow> filter P zones \<noteq> []"
proof -
  assume a: "'''' \<notin> set zones"
  show ?thesis
  proof (cases "filter P zones = []")
    case True then show ?thesis by simp
  next
    case False
    then have "longest (filter P zones) \<in> set (filter P zones)" by (rule longest_mem)
    then have "longest (filter P zones) \<in> set zones" by simp
    with a have "longest (filter P zones) \<noteq> ''''" by metis
    with False show ?thesis by simp
  qed
qed

lemma getZone_resolveZone:
  assumes "'''' \<notin> set zones"
  shows "getZone zones endpoint = resolveZone zones endpoint"
proof -
  let ?D = "filter (dot_match (DNSName endpoint)) zones"
  let ?H = "filter (hyphen_match (DNSName endpoint)) zones"
  let ?E = "Some (ZoneNotFound endpoint)"
  have d: "fold (getZone_dot endpoint) zones ('''', ?E)
      = (if ?D \<noteq> [] then (longest ?D, None) else ('''', ?E))"
    unfolding getZone_dot_eq fold_longest using longest_filter_empty[OF assms, of "dot_match (DNSName endpoint)"]
    by simp
  have h: "fold (getZone_hyphen endpoint) zones ('''', ?E)
      = (if ?H \<noteq> [] then (longest ?H, None) else ('''', ?E))"
    unfolding getZone_hyphen_eq fold_longest using longest_filter_empty[OF assms, of "hyphen_match (DNSName endpoint)"]
    by simp
  show ?thesis
  proof (cases "?D = []")
    case True
    then show ?thesis unfolding getZone_def resolveZone_def Let_def d by (simp add: h)
  next
    case False
    then have "length (longest ?D) > 0" using longest_filter_empty[OF assms] by blast
    then have "longest ?D \<noteq> ''''" by simp
    with False show ?thesis unfolding getZone_def resolveZone_def Let_def d by simp
  qed
qed

text \<open>
  Claim C6, as amended. For a zone list without the empty name, \<open>getZone\<close> returns the
  longest zone that the DNS name equals or ends with after a dot (the first such zone
  among the longest); only when no zone matches so, the longest zone that the DNS name
  ends with after a hyphen; and when no zone matches either way, the empty name with an
  error that carries the endpoint.
\<close>

theorem getZone_longest:
  assumes "'''' \<notin> set zones"
  shows "getZone zones endpoint = resolveZone zones endpoint
     \<and> (let dots = filter (dot_match (DNSName endpoint)) zones;
             hyphens = filter (hyphen_match (DNSName endpoint)) zones
         in (dots \<noteq> [] \<longrightarrow>
               fst (getZone zones endpoint) \<in> set dots
               \<and> (\<forall>z\<in>set dots. length z \<le> length (fst (getZone zones endpoint)))
               \<and> snd (getZone zones endpoint) = None)
          \<and> (dots = [] \<and> hyphens \<noteq> [] \<longrightarrow>
               fst (getZone zones endpoint) \<in> set hyphens
               \<and> (\<forall>z\<in>set hyphens. length z \<le> length (fst (getZone zones endpoint)))
               \<and> snd (getZone zones endpoint) = None)
          \<and> (dots = [] \<and> hyphens = [] \<longrightarrow>
               getZone zones endpoint = ('''', Some (ZoneNotFound endpoint))))"
proof -
  let ?D = "filter (dot_match (DNSName endpoint)) zones"
  let ?H = "filter (hyphen_match (DNSName endpoint)) zones"
  have r: "getZone zones endpoint = resolveZone zones endpoint"
    by (rule getZone_resolveZone[OF assms])
  have d: "?D \<noteq> [] \<Longrightarrow> resolveZone zones endpoint = (longest ?D, None)"
    by (simp add: resolveZone_def Let_def)
  have h: "?D = [] \<Longrightarrow> ?H \<noteq> [] \<Longrightarrow> resolveZone zones endpoint = (longest ?H, None)"
    by (simp add: resolveZone_def Let_def)
  have n: "?D = [] \<Longrightarrow> ?H = [] \<Longrightarrow>
             resolveZone zones endpoint = ('''', Some (ZoneNotFound endpoint))"
    by (simp add: resolveZone_def Let_def)
  have 1: "?D \<noteq> [] \<longrightarrow>
             fst (resolveZone zones endpoint) \<in> set ?D
             \<and> (\<forall>z\<in>set ?D. length z \<le> length (fst (resolveZone zones endpoint)))
             \<and> snd (resolveZone zones endpoint) = None"
  proof
    assume a: "?D \<noteq> []"
    show "fst (resolveZone zones endpoint) \<in> set ?D
             \<and> (\<forall>z\<in>set ?D. length z \<le> length (fst (resolveZone zones endpoint)))
             \<and> snd (resolveZone zones endpoint) = None"
      unfolding d[OF a] fst_conv snd_conv
      using longest_mem[OF a] longest_max[of _ ?D] by blast
  qed
  have 2: "?D = [] \<and> ?H \<noteq> [] \<longrightarrow>
             fst (resolveZone zones endpoint) \<in> set ?H
             \<and> (\<forall>z\<in>set ?H. length z \<le> length (fst (resolveZone zones endpoint)))
             \<and> snd (resolveZone zones endpoint) = None"
  proof
    assume "?D = [] \<and> ?H \<noteq> []"
    then have a: "?D = []" and b: "?H \<noteq> []" by blast+
    show "fst (resolveZone zones endpoint) \<in> set ?H
             \<and> (\<forall>z\<in>set ?H. length z \<le> length (fst (resolveZone zones endpoint)))
             \<and> snd (resolveZone zones endpoint) = None"
      unfolding h[OF a b] fst_conv snd_conv
      using longest_mem[OF b] longest_max[of _ ?H] by blast
  qed
  have 3: "?D = [] \<and> ?H = [] \<longrightarrow>
             resolveZone zones endpoint = ('''', Some (ZoneNotFound endpoint))"
    using n by blast
  show ?thesis
    unfolding r Let_def using 1 2 3 by (intro conjI) auto
qed

theorem getZone_longest_witness:
  "'''' \<notin> set [''bar.org'', ''subdomain.bar.org'']
   \<and> getZone [''bar.org'', ''subdomain.bar.org''] ep_foo_sub = (''subdomain.bar.org'', None)"
proof -
  have h: "'''' \<notin> set [''bar.org'', ''subdomain.bar.org'']" by simp
  have r: "resolveZone [''bar.org'', ''subdomain.bar.org''] ep_foo_sub = (''subdomain.bar.org'', None)"
    by code_simp
  from getZone_longest[OF h, of ep_foo_sub]
  have "getZone [''bar.org'', ''subdomain.bar.org''] ep_foo_sub
          = resolveZone [''bar.org'', ''subdomain.bar.org''] ep_foo_sub"
    by (rule conjunct1)
  then have "getZone [''bar.org'', ''subdomain.bar.org''] ep_foo_sub = (''subdomain.bar.org'', None)"
    by (simp only: r)
  with h show ?thesis by simp
qed

theorem getZone_empty_zone_counterexample:
  "dot_match (DNSName ep_hyphen) ''''
   \<and> \<not> dot_match (DNSName ep_hyphen) ''oo.''
   \<and> getZone ['''', ''oo.''] ep_hyphen = (''oo.'', None)"
  by code_simp

section \<open>Properties of the record matcher\<close>

lemma fold_getRecIDs_inner:
  "fold (getRecIDs_inner ep (extractRecordName (DNSName ep) zone) target) records acc
     = acc @ map rec_ID (filter (matchesTarget zone ep target) records)"
  by (induction records arbitrary: acc) (auto simp: getRecIDs_inner_def matchesTarget_def)

lemma fold_getRecIDs_outer:
  "fold (\<lambda>target. fold (getRecIDs_inner ep (extractRecordName (DNSName ep) zone) target) records) ts acc
     = acc @ concat (map (\<lambda>target. map rec_ID (filter (matchesTarget zone ep target) records)) ts)"
  by (induction ts arbitrary: acc) (simp_all add: fold_getRecIDs_inner)

lemma getRecIDs_collected:
  "getRecIDs zone records ep =
     (if length (collectedIDs zone records ep) = length (Targets ep)
      then Inr (collectedIDs zone records ep) else Inl IncompleteMapping)"
  by (simp add: getRecIDs_def Let_def fold_getRecIDs_outer collectedIDs_def)

lemma filter_unique_key:
  assumes "distinct (map f xs)" "\<And>x. P x \<Longrightarrow> f x = c"
  shows "length (filter P xs) \<le> 1"
  using assms(1)
proof (induction xs)
  case Nil show ?case by simp
next
  case (Cons x xs)
  show ?case
  proof (cases "P x")
    case False with Cons show ?thesis by simp
  next
    case True
    have "filter P xs = []"
    proof (rule ccontr)
      assume "filter P xs \<noteq> []"
      then obtain y where y: "y \<in> set xs" "P y"
        by (metis filter_False)
      then have "f y = f x" using True assms(2) by simp
      moreover have "f x \<notin> f ` set xs" using Cons.prems by simp
      moreover have "f y \<in> f ` set xs" using y(1) by simp
      ultimately show False by simp
    qed
    with True show ?thesis by simp
  qed
qed

lemma matches_at_most_one:
  "uniqueRecords records \<Longrightarrow> length (filter (matchesTarget zone ep target) records) \<le> 1"
  unfolding uniqueRecords_def
  by (rule filter_unique_key[where f = recordKey
          and c = "(extractRecordName (DNSName ep) zone, RecordType ep, target)"])
     (auto simp: matchesTarget_def recordKey_def)

lemma concat_singletons_le:
  "(\<forall>t\<in>set ts. length (g t) \<le> 1) \<Longrightarrow> length (concat (map g ts)) \<le> length ts"
proof (induction ts)
  case Nil show ?case by simp
next
  case (Cons t ts)
  have "length (g t) \<le> 1" using Cons.prems by simp
  moreover have "length (concat (map g ts)) \<le> length ts" using Cons by simp
  ultimately show ?case by simp
qed

lemma concat_singletons_eq:
  "(\<forall>t\<in>set ts. length (g t) \<le> 1) \<Longrightarrow>
     length (concat (map g ts)) = length ts \<longleftrightarrow> (\<forall>t\<in>set ts. g t \<noteq> [])"
proof (induction ts)
  case Nil show ?case by simp
next
  case (Cons t ts)
  have a: "length (g t) \<le> 1" using Cons.prems by simp
  have b: "length (concat (map g ts)) \<le> length ts"
    using Cons.prems by (intro concat_singletons_le) simp
  have ih: "length (concat (map g ts)) = length ts \<longleftrightarrow> (\<forall>t\<in>set ts. g t \<noteq> [])"
    using Cons by simp
  have c: "g t \<noteq> [] \<longleftrightarrow> length (g t) = 1" using a by (cases "g t") auto
  have "length (g t) + length (concat (map g ts)) = Suc (length ts)
          \<longleftrightarrow> length (g t) = 1 \<and> length (concat (map g ts)) = length ts"
    using a b by arith
  then show ?case using ih c by simp
qed

lemma concat_singletons_map:
  "(\<forall>t\<in>set ts. length (g t) = 1) \<Longrightarrow> concat (map g ts) = map (\<lambda>t. hd (g t)) ts"
proof (induction ts)
  case Nil show ?case by simp
next
  case (Cons t ts)
  have "length (g t) = 1" using Cons.prems by simp
  then have "g t = [hd (g t)]" by (cases "g t") auto
  moreover have "concat (map g ts) = map (\<lambda>t. hd (g t)) ts" using Cons by simp
  ultimately show ?case by simp
qed

lemma hd_filter_find:
  "filter P xs \<noteq> [] \<Longrightarrow> hd (map f (filter P xs)) = f (the (find P xs))"
  by (induction xs) auto

text \<open>
  Claim C1, as amended. \<open>getRecIDs\<close> collects, target by target, the identifiers of
  the records with the endpoint's type, its resolved record name and the target's
  content, and fails with IncompleteMapping exactly when their number differs from the
  number of targets. When no two records of the snapshot share name, type and content,
  it fails exactly when some target has no such record, and otherwise returns for each
  target, in order, the identifier of its record.
\<close>

theorem getRecIDs_mapping:
  "getRecIDs zone records ep =
     (if length (collectedIDs zone records ep) = length (Targets ep)
      then Inr (collectedIDs zone records ep) else Inl IncompleteMapping)
   \<and> (uniqueRecords records \<longrightarrow>
        getRecIDs zone records ep =
          (if \<forall>target\<in>set (Targets ep). \<exists>record\<in>set records. matchesTarget zone ep target record
           then Inr (map (\<lambda>target. rec_ID (the (find (matchesTarget zone ep target) records)))
                         (Targets ep))
           else Inl IncompleteMapping))"
proof (intro conjI impI)
  show c: "getRecIDs zone records ep =
     (if length (collectedIDs zone records ep) = length (Targets ep)
      then Inr (collectedIDs zone records ep) else Inl IncompleteMapping)"
    by (rule getRecIDs_collected)
  assume u: "uniqueRecords records"
  let ?g = "\<lambda>target. map rec_ID (filter (matchesTarget zone ep target) records)"
  have le: "\<forall>t\<in>set (Targets ep). length (?g t) \<le> 1"
    using matches_at_most_one[OF u] by simp
  have ne: "\<And>t. ?g t \<noteq> [] \<longleftrightarrow> (\<exists>record\<in>set records. matchesTarget zone ep t record)"
    by (auto simp: filter_empty_conv)
  have iff: "length (collectedIDs zone records ep) = length (Targets ep)
      \<longleftrightarrow> (\<forall>t\<in>set (Targets ep). \<exists>record\<in>set records. matchesTarget zone ep t record)"
    unfolding collectedIDs_def concat_singletons_eq[OF le] using ne by simp
  show "getRecIDs zone records ep =
          (if \<forall>target\<in>set (Targets ep). \<exists>record\<in>set records. matchesTarget zone ep target record
           then Inr (map (\<lambda>target. rec_ID (the (find (matchesTarget zone ep target) records)))
                         (Targets ep))
           else Inl IncompleteMapping)"
  proof (cases "\<forall>t\<in>set (Targets ep). \<exists>record\<in>set records. matchesTarget zone ep t record")
    case False
    then have l: "length (collectedIDs zone records ep) \<noteq> length (Targets ep)"
      using iff by blast
    show ?thesis unfolding c using l False by (simp only: if_False)
  next
    case True
    then have all: "\<forall>t\<in>set (Targets ep). ?g t \<noteq> []" using ne by simp
    then have one: "\<forall>t\<in>set (Targets ep). length (?g t) = 1"
    proof (intro ballI)
      fix t assume t: "t \<in> set (Targets ep)"
      with le have "length (?g t) \<le> 1" by blast
      moreover from all t have "?g t \<noteq> []" by blast
      ultimately show "length (?g t) = 1" by (cases "?g t") auto
    qed
    have "collectedIDs zone records ep = map (\<lambda>t. hd (?g t)) (Targets ep)"
      unfolding collectedIDs_def by (rule concat_singletons_map[OF one])
    also have "\<dots> = map (\<lambda>target. rec_ID (the (find (matchesTarget zone ep target) records))) (Targets ep)"
    proof (rule map_cong[OF refl])
      fix t assume "t \<in> set (Targets ep)"
      with all have "filter (matchesTarget zone ep t) records \<noteq> []" by auto
      then show "hd (?g t) = rec_ID (the (find (matchesTarget zone ep t) records))"
        by (rule hd_filter_find)
    qed
    finally show ?thesis unfolding c using iff True by simp
  qed
qed

lemma extractRecordName_foo: "extractRecordName ''foo.example.com'' ''example.com'' = ''foo''" by code_simp

theorem getRecIDs_duplicate_counterexample:
  "getRecIDs ''example.com'' [rec_foo_1, rec_foo_2] ep_foo_two = Inr [''1'', ''2'']
   \<and> filter (matchesTarget ''example.com'' ep_foo_two ''2.2.2.2'') [rec_foo_1, rec_foo_2] = []
   \<and> ''2.2.2.2'' \<in> set (Targets ep_foo_two)"
  by (simp add: getRecIDs_def getRecIDs_inner_def matchesTarget_def rec_foo_1_def rec_foo_2_def ep_foo_two_def extractRecordName_foo)

theorem getRecIDs_mapping_witness:
  "uniqueRecords [rec_foo_1] \<and> getRecIDs ''example.com'' [rec_foo_1] ep_foo_two = Inl IncompleteMapping"
proof -
  have u: "uniqueRecords [rec_foo_1]" by (simp add: uniqueRecords_def)
  have n: "\<not> (\<forall>target\<in>set (Targets ep_foo_two). \<exists>record\<in>set [rec_foo_1]. matchesTarget ''example.com'' ep_foo_two target record)"
    by (simp add: matchesTarget_def rec_foo_1_def ep_foo_two_def)
  from getRecIDs_mapping[of "''example.com''" "[rec_foo_1]" ep_foo_two] u
  have "getRecIDs ''example.com'' [rec_foo_1] ep_foo_two =
          (if \<forall>target\<in>set (Targets ep_foo_two). \<exists>record\<in>set [rec_foo_1]. matchesTarget ''example.com'' ep_foo_two target record
           then Inr (map (\<lambda>target. rec_ID (the (find (matchesTarget ''example.com'' ep_foo_two target) [rec_foo_1])))
                         (Targets ep_foo_two))
           else Inl IncompleteMapping)" by blast
  then have "getRecIDs ''example.com'' [rec_foo_1] ep_foo_two = Inl IncompleteMapping"
    using n by (simp only: if_False)
  with u show ?thesis by simp
qed

section \<open>Properties of the state reader\<close>

lemma fold_Records_append:
  "fold (Records_append zone) records endpoints = endpoints @ map (observed zone) records"
  by (induction records arbitrary: endpoints)
     (simp_all add: Records_append_def NewEndpointWithTTL_def observed_def)

lemma Records_zones_read:
  "(\<forall>zone\<in>set zones. getRecords c zone s = (Inr (live zone), s)) \<Longrightarrow>
   Records_zones c zones endpoints s
     = (Inr (endpoints @ concat (map (\<lambda>zone. map (observed zone) (live zone)) zones)), s)"
  by (induction zones arbitrary: endpoints) (simp_all add: fold_Records_append)

text \<open>
  Claim C9. When the session opens, the zones are listed and each zone's records are
  read, \<open>Records\<close> returns one endpoint per record the registrar answered, zone by
  zone and record by record: its DNS name is the record's name, a dot and the zone; its
  only target is the record's content; type and TTL are the record's. Records that share
  name and type stay separate endpoints.
\<close>

theorem Records_one_per_record:
  assumes "login c s = (None, s1)"
    and "getZones c s1 = (Inr zones, s2)"
    and "\<forall>zone\<in>set zones. getRecords c zone s2 = (Inr (live zone), s2)"
  shows "fst (Records c s) =
           Inr (concat (map (\<lambda>zone. map (\<lambda>rec.
                  \<lparr>DNSName = rec_Name rec @ ''.'' @ zone, Targets = [rec_Content rec],
                   RecordType = rec_Type rec, RecordTTL = rec_TTL rec\<rparr>) (live zone)) zones))"
proof -
  have "Records_zones c zones [] s2
     = (Inr (concat (map (\<lambda>zone. map (observed zone) (live zone)) zones)), s2)"
    using Records_zones_read[OF assms(3), of "[]"] by simp
  then show ?thesis
    using assms(1,2) by (simp add: Records_def observed_def[abs_def])
qed

theorem Records_one_per_record_witness:
  "fst (Records mock_client w_two) =
     Inr [\<lparr>DNSName = ''foo.example.com'', Targets = [''1.1.1.1''], RecordType = ''A'', RecordTTL = 60\<rparr>,
          \<lparr>DNSName = ''foo.example.com'', Targets = [''2.2.2.2''], RecordType = ''A'', RecordTTL = 300\<rparr>,
          \<lparr>DNSName = ''.bar.org'', Targets = [''hello''], RecordType = ''TXT'', RecordTTL = 0\<rparr>]"
proof -
  let ?live = "\<lambda>zone. filter (\<lambda>rec. rec_ID rec \<noteq> '''') (the (map_of (db w_two) zone))"
  have 1: "login mock_client w_two = (None, w_two)"
    by (simp add: mock_client_def mock_login_def)
  have 2: "getZones mock_client w_two = (Inr [''example.com'', ''bar.org''], w_two)"
    by (simp add: mock_client_def mock_getZones_def w_two_def)
  have 3: "\<forall>zone\<in>set [''example.com'', ''bar.org''].
             getRecords mock_client zone w_two = (Inr (?live zone), w_two)"
    by (simp add: mock_client_def mock_getRecords_def w_two_def)
  show ?thesis
    using Records_one_per_record[OF 1 2 3] by (simp add: w_two_def)
qed


section \<open>Index safety of the paired update\<close>

lemma getRecIDs_length:
  "getRecIDs zone records ep = Inr recIDs \<Longrightarrow> length recIDs = length (Targets ep)"
  by (auto simp: getRecIDs_def Let_def split: if_splits)

lemma updatePairedIndex_in_range:
  assumes "length recIDs = length (Targets oldEp)"
    and "j < max (max (length (Targets oldEp)) (length (Targets newEp))) (length recIDs)"
  shows "updatePairedIndex c zone name oldEp newEp recIDs j st \<noteq> None"
  using assms
  by (cases st) (auto simp: updatePairedIndex_def index_def split: prod.splits option.splits)

lemma fold_option_Some:
  "(\<forall>j\<in>set js. \<forall>st. f j st \<noteq> None) \<Longrightarrow>
   fold (\<lambda>j r. case r of None \<Rightarrow> None | Some st \<Rightarrow> f j st) js (Some st) \<noteq> None"
proof (induction js arbitrary: st)
  case Nil show ?case by simp
next
  case (Cons j js)
  then obtain st' where "f j st = Some st'" by fastforce
  then show ?case using Cons by simp
qed

text \<open>
  Claim C10. When \<open>getRecIDs\<close> succeeds for the old endpoint it returns as many
  identifiers as the old endpoint has targets, and then every index the paired loop
  reads is in range: \<open>recIDs[j]\<close> and \<open>oldEp.Targets[j]\<close> where
  \<open>j \<ge> |newEp.Targets|\<close>, \<open>newEp.Targets[j]\<close> where \<open>j < |newEp.Targets|\<close>, and
  \<open>recIDs[j]\<close> in the update branch; no step of the loop and not the loop panics.
\<close>

theorem updatePaired_in_range:
  assumes "getRecIDs zone records oldEp = Inr recIDs"
  shows "length recIDs = length (Targets oldEp)
     \<and> (\<forall>j < max (max (length (Targets oldEp)) (length (Targets newEp))) (length recIDs).
          (j \<ge> length (Targets newEp) \<longrightarrow> index recIDs j \<noteq> None \<and> index (Targets oldEp) j \<noteq> None)
          \<and> (j < length (Targets newEp) \<longrightarrow> index (Targets newEp) j \<noteq> None)
          \<and> (j < length (Targets newEp) \<and> j < length (Targets oldEp) \<longrightarrow> index recIDs j \<noteq> None)
          \<and> (\<forall>st. updatePairedIndex c zone name oldEp newEp recIDs j st \<noteq> None))
     \<and> updatePaired c zone name oldEp newEp recIDs st \<noteq> None"
proof -
  have len: "length recIDs = length (Targets oldEp)"
    by (rule getRecIDs_length[OF assms])
  have step: "\<forall>j\<in>set [0 ..< max (max (length (Targets oldEp)) (length (Targets newEp))) (length recIDs)].
                \<forall>st. updatePairedIndex c zone name oldEp newEp recIDs j st \<noteq> None"
  proof (intro ballI allI)
    fix j st'
    assume "j \<in> set [0 ..< max (max (length (Targets oldEp)) (length (Targets newEp))) (length recIDs)]"
    then have "j < max (max (length (Targets oldEp)) (length (Targets newEp))) (length recIDs)"
      by simp
    then show "updatePairedIndex c zone name oldEp newEp recIDs j st' \<noteq> None"
      by (rule updatePairedIndex_in_range[OF len])
  qed
  have loop: "updatePaired c zone name oldEp newEp recIDs st \<noteq> None"
    unfolding updatePaired_def by (rule fold_option_Some[OF step])
  have idx: "\<forall>j < max (max (length (Targets oldEp)) (length (Targets newEp))) (length recIDs).
          (j \<ge> length (Targets newEp) \<longrightarrow> index recIDs j \<noteq> None \<and> index (Targets oldEp) j \<noteq> None)
          \<and> (j < length (Targets newEp) \<longrightarrow> index (Targets newEp) j \<noteq> None)
          \<and> (j < length (Targets newEp) \<and> j < length (Targets oldEp) \<longrightarrow> index recIDs j \<noteq> None)
          \<and> (\<forall>st. updatePairedIndex c zone name oldEp newEp recIDs j st \<noteq> None)"
    using len step by (auto simp: index_def)
  show ?thesis
    using len loop idx by (intro conjI)
qed

theorem updatePaired_in_range_witness:
  "getRecIDs ''example.com'' [rec_foo_1] ep_foo_one = Inr [''1'']
   \<and> length [''1''] = length (Targets ep_foo_one)
   \<and> updatePaired mock_client ''example.com'' ''foo'' ep_foo_one ep_foo_two [''1''] (w_two, []) \<noteq> None"
proof -
  have g: "getRecIDs ''example.com'' [rec_foo_1] ep_foo_one = Inr [''1'']"
    by (simp add: getRecIDs_def getRecIDs_inner_def rec_foo_1_def ep_foo_one_def
                  extractRecordName_foo)
  from updatePaired_in_range[OF g, where newEp = ep_foo_two and c = mock_client
         and name = "''foo''" and st = "(w_two, [])"]
  show ?thesis using g by blast
qed

section \<open>Calls and errors of the planner under a logging client\<close>

lemma recordedErrors_append [simp]:
  "recordedErrors (xs @ ys) = recordedErrors xs @ recordedErrors ys"
  by (simp add: recordedErrors_def)

lemma recordedErrors_Nil [simp]: "recordedErrors [] = []"
  by (simp add: recordedErrors_def)

lemma logged_createRecord:
  "createRecord (logged c) rec (s, l) =
     (case createRecord c rec s of (r, s') \<Rightarrow> (r, (s', l @ [(CreateRecord rec, r)])))"
  by (simp add: logged_def)

lemma logged_updateRecord:
  "updateRecord (logged c) recID rec (s, l) =
     (case updateRecord c recID rec s of (r, s') \<Rightarrow> (r, (s', l @ [(UpdateRecord recID rec, r)])))"
  by (simp add: logged_def)

lemma logged_deleteRecord:
  "deleteRecord (logged c) recID (s, l) =
     (case deleteRecord c recID s of (r, s') \<Rightarrow> (r, (s', l @ [(DeleteRecord recID, r)])))"
  by (simp add: logged_def)

lemma logged_getRecords:
  "getRecords (logged c) zone (s, l) =
     (case getRecords c zone s of (r, s') \<Rightarrow> (r, (s', l @ [(GetRecords zone, failure r)])))"
  by (simp add: logged_def)

lemma createOrExists_logged:
  "\<exists>s' r. createRecord c rec s = (r, s')
      \<and> createOrExists (logged c) rec ((s, l), errs)
          = ((s', l @ [(CreateRecord rec, r)]), errs @ recordedErrors [(CreateRecord rec, r)])"
  by (cases "createRecord c rec s")
     (auto simp: createOrExists_def logged_createRecord recordedErrors_def split: option.splits)

lemma fold_issues:
  assumes "\<And>x s l errs. x \<in> set xs \<Longrightarrow>
             \<exists>s' new. f x ((s, l), errs) = ((s', l @ new), errs @ recordedErrors new)
                       \<and> map fst new = plan x"
  shows "\<exists>s' new. fold f xs ((s, l), errs) = ((s', l @ new), errs @ recordedErrors new)
                   \<and> map fst new = concat (map plan xs)"
  using assms
proof (induction xs arbitrary: s l errs)
  case Nil
  show ?case by (intro exI[of _ s] exI[of _ "[]"]) simp
next
  case (Cons x xs)
  from Cons.prems[of x s l errs] obtain s1 new1 where
    1: "f x ((s, l), errs) = ((s1, l @ new1), errs @ recordedErrors new1)"
       "map fst new1 = plan x" by auto
  from Cons.IH[of s1 "l @ new1" "errs @ recordedErrors new1"] Cons.prems obtain s2 new2 where
    2: "fold f xs ((s1, l @ new1), errs @ recordedErrors new1)
          = ((s2, (l @ new1) @ new2), (errs @ recordedErrors new1) @ recordedErrors new2)"
       "map fst new2 = concat (map plan xs)" by auto
  show ?case
    using 1 2 by (intro exI[of _ s2] exI[of _ "new1 @ new2"]) simp
qed

lemma fold_option_issues:
  assumes "\<And>j s l errs. j \<in> set js \<Longrightarrow>
             \<exists>s' r. f j ((s, l), errs)
                = Some ((s', l @ [(plan j, r)]), errs @ recordedErrors [(plan j, r)])"
  shows "\<exists>s' new. fold (\<lambda>j r. case r of None \<Rightarrow> None | Some st \<Rightarrow> f j st) js (Some ((s, l), errs))
                = Some ((s', l @ new), errs @ recordedErrors new)
                   \<and> map fst new = map plan js"
  using assms
proof (induction js arbitrary: s l errs)
  case Nil
  show ?case by (intro exI[of _ s] exI[of _ "[]"]) simp
next
  case (Cons j js)
  from Cons.prems[of j s l errs] obtain s1 r where
    1: "f j ((s, l), errs) = Some ((s1, l @ [(plan j, r)]), errs @ recordedErrors [(plan j, r)])"
    by auto
  from Cons.IH[of s1 "l @ [(plan j, r)]" "errs @ recordedErrors [(plan j, r)]"] Cons.prems
  obtain s2 new2 where
    2: "fold (\<lambda>j r. case r of None \<Rightarrow> None | Some st \<Rightarrow> f j st) js
          (Some ((s1, l @ [(plan j, r)]), errs @ recordedErrors [(plan j, r)]))
          = Some ((s2, (l @ [(plan j, r)]) @ new2),
                  (errs @ recordedErrors [(plan j, r)]) @ recordedErrors new2)"
       "map fst new2 = map plan js" by auto
  show ?case
    using 1 2 recordedErrors_append[of "[(plan j, r)]" new2]
    by (intro exI[of _ s2] exI[of _ "(plan j, r) # new2"]) simp
qed

lemma updatePairedIndex_logged:
  assumes "length recIDs = length (Targets oldEp)"
    and "j < max (max (length (Targets oldEp)) (length (Targets newEp))) (length recIDs)"
  shows "\<exists>s' r. updatePairedIndex (logged c) zone name oldEp newEp recIDs j ((s, l), errs)
           = Some ((s', l @ [(pairedOperation zone name oldEp newEp recIDs j, r)]),
                   errs @ recordedErrors [(pairedOperation zone name oldEp newEp recIDs j, r)])"
proof -
  consider (del) "j \<ge> length (Targets newEp)"
    | (cre) "j < length (Targets newEp)" "j \<ge> length (Targets oldEp)"
    | (upd) "j < length (Targets newEp)" "j < length (Targets oldEp)"
    by linarith
  then show ?thesis
  proof cases
    case del
    then have j: "j < length recIDs" "j < length (Targets oldEp)" using assms by auto
    show ?thesis
      using del j
      by (cases "deleteRecord c (recIDs ! j) s")
         (auto simp: updatePairedIndex_def index_def logged_deleteRecord pairedOperation_def
                     recordedErrors_def split: option.splits)
  next
    case cre
    let ?rec = "createRequest zone name (RecordType newEp) (RecordTTL newEp) (Targets newEp ! j)"
    from createOrExists_logged[of c ?rec s l errs] obtain s' r where
      "createOrExists (logged c) ?rec ((s, l), errs)
          = ((s', l @ [(CreateRecord ?rec, r)]), errs @ recordedErrors [(CreateRecord ?rec, r)])"
      by blast
    then show ?thesis
      using cre
      by (auto simp: updatePairedIndex_def index_def pairedOperation_def createRequest_def)
  next
    case upd
    then have j: "j < length recIDs" using assms by auto
    show ?thesis
      using upd j
      by (cases "updateRecord c (recIDs ! j)
                   (createRequest zone name (RecordType newEp) (RecordTTL oldEp) (Targets newEp ! j)) s")
         (auto simp: updatePairedIndex_def index_def logged_updateRecord pairedOperation_def
                     createRequest_def recordedErrors_def split: option.splits)
  qed
qed


text \<open>
  Claim C3. On the paired path, where \<open>getRecIDs\<close> resolved the old endpoint, the loop
  issues one call per index \<open>j < n\<close>, \<open>n = max(|old.targets|, |new.targets|, |recIDs|)\<close>,
  in order: for \<open>j \<ge> |new.targets|\<close> it deletes \<open>recIDs[j]\<close>; else for
  \<open>j \<ge> |old.targets|\<close> it creates a record with content \<open>new.targets[j]\<close> and the TTL
  of the new endpoint; otherwise it updates \<open>recIDs[j]\<close> to content \<open>new.targets[j]\<close>
  with the TTL of the old endpoint. The loop does not panic, and the errors it records
  are those the calls answered (object-exists on a create left out).
\<close>

theorem updatePaired_operations:
  assumes "getRecIDs zone records oldEp = Inr recIDs"
  shows "\<exists>s' new.
           updatePaired (logged c) zone name oldEp newEp recIDs ((s, l), errs)
             = Some ((s', l @ new), errs @ recordedErrors new)
           \<and> map fst new =
               map (\<lambda>j. if j \<ge> length (Targets newEp) then DeleteRecord (recIDs ! j)
                         else if j \<ge> length (Targets oldEp) then
                           CreateRecord \<lparr>req_Domain = zone, req_Name = name,
                                         req_Type = RecordType newEp, req_TTL = RecordTTL newEp,
                                         req_Content = Targets newEp ! j, req_Priority = 0\<rparr>
                         else
                           UpdateRecord (recIDs ! j)
                                        \<lparr>req_Domain = zone, req_Name = name,
                                         req_Type = RecordType newEp, req_TTL = RecordTTL oldEp,
                                         req_Content = Targets newEp ! j, req_Priority = 0\<rparr>)
                   [0 ..< max (max (length (Targets oldEp)) (length (Targets newEp))) (length recIDs)]"
proof -
  have len: "length recIDs = length (Targets oldEp)"
    by (rule getRecIDs_length[OF assms])
  have "\<exists>s' new.
          fold (\<lambda>j r. case r of None \<Rightarrow> None
                      | Some st \<Rightarrow> updatePairedIndex (logged c) zone name oldEp newEp recIDs j st)
               [0 ..< max (max (length (Targets oldEp)) (length (Targets newEp))) (length recIDs)]
               (Some ((s, l), errs))
            = Some ((s', l @ new), errs @ recordedErrors new)
          \<and> map fst new = map (pairedOperation zone name oldEp newEp recIDs)
               [0 ..< max (max (length (Targets oldEp)) (length (Targets newEp))) (length recIDs)]"
  proof (rule fold_option_issues)
    fix j s l errs
    assume "j \<in> set [0 ..< max (max (length (Targets oldEp)) (length (Targets newEp))) (length recIDs)]"
    then have "j < max (max (length (Targets oldEp)) (length (Targets newEp))) (length recIDs)"
      by simp
    then show "\<exists>s' r. updatePairedIndex (logged c) zone name oldEp newEp recIDs j ((s, l), errs)
           = Some ((s', l @ [(pairedOperation zone name oldEp newEp recIDs j, r)]),
                   errs @ recordedErrors [(pairedOperation zone name oldEp newEp recIDs j, r)])"
      by (rule updatePairedIndex_logged[OF len])
  qed
  then show ?thesis
    unfolding updatePaired_def pairedOperation_def[abs_def] .
qed

theorem updatePaired_operations_witness:
  "getRecIDs ''example.com'' [rec_foo_1] ep_foo_one = Inr [''1'']
   \<and> (\<exists>s' new.
         updatePaired (logged mock_client) ''example.com'' ''foo'' ep_foo_one ep_foo_two [''1'']
           ((w_ab, []), [])
           = Some ((s', new), recordedErrors new)
         \<and> map fst new =
             [UpdateRecord ''1'' \<lparr>req_Domain = ''example.com'', req_Name = ''foo'', req_Type = ''A'',
                                  req_TTL = 60, req_Content = ''1.1.1.1'', req_Priority = 0\<rparr>,
              CreateRecord \<lparr>req_Domain = ''example.com'', req_Name = ''foo'', req_Type = ''A'',
                            req_TTL = 60, req_Content = ''2.2.2.2'', req_Priority = 0\<rparr>])"
proof -
  have g: "getRecIDs ''example.com'' [rec_foo_1] ep_foo_one = Inr [''1'']"
    by (simp add: getRecIDs_def getRecIDs_inner_def rec_foo_1_def ep_foo_one_def
                  extractRecordName_foo)
  have u: "[0 ..< max (max (length (Targets ep_foo_one)) (length (Targets ep_foo_two))) (length [''1''])]
             = [0, 1]"
    by (simp add: ep_foo_one_def ep_foo_two_def upt_rec)
  from updatePaired_operations[OF g, where c = mock_client and name = "''foo''"
         and newEp = ep_foo_two and s = w_ab and l = "[]" and errs = "[]"]
  show ?thesis
    unfolding u using g by (simp add: ep_foo_one_def ep_foo_two_def)
qed

section \<open>The Create phase\<close>

lemma fold_matches_filter:
  "fold (\<lambda>record matches. if recordType = rec_Type record \<and> rec_Name record = targetName
                            then matches @ [record] else matches) records acc
     = acc @ filter (\<lambda>r. rec_Type r = recordType \<and> rec_Name r = targetName) records"
  by (induction records arbitrary: acc) auto

lemma findRecordsByNameAndType_filter:
  "findRecordsByNameAndType zone records dnsName recordType =
     filter (\<lambda>r. rec_Type r = recordType \<and> rec_Name r = extractRecordName dnsName zone) records"
  unfolding findRecordsByNameAndType_def Let_def fold_matches_filter by simp

lemma findExactRecord_found:
  "(\<forall>r\<in>set rs. rec_ID r \<noteq> '''') \<Longrightarrow>
     (findExactRecord rs content \<noteq> '''') = (\<exists>r\<in>set rs. rec_Content r = content)"
  by (induction rs) auto

lemma isObjectExistsError_iff: "isObjectExistsError err \<longleftrightarrow> err = ErrorResponse 2302"
  by (cases err) auto

lemma createTarget_skip:
  "findExactRecord (findRecordsByNameAndType zone records (DNSName ep) (RecordType ep)) target \<noteq> ''''
   \<Longrightarrow> createTarget c zone records ep name target st = st"
  by (cases st) (simp add: createTarget_def Let_def)

lemma createTarget_update:
  assumes "findExactRecord (findRecordsByNameAndType zone records (DNSName ep) (RecordType ep)) target = ''''"
    and "length (findRecordsByNameAndType zone records (DNSName ep) (RecordType ep)) = 1"
    and "length (Targets ep) = 1"
  shows "\<exists>r s'. updateRecord c (rec_ID (hd (findRecordsByNameAndType zone records (DNSName ep) (RecordType ep))))
                   (createRequest zone name (RecordType ep) (RecordTTL ep) target) s = (r, s')
           \<and> createTarget (logged c) zone records ep name target ((s, l), errs)
              = ((s', l @ [(UpdateRecord (rec_ID (hd (findRecordsByNameAndType zone records (DNSName ep) (RecordType ep))))
                              (createRequest zone name (RecordType ep) (RecordTTL ep) target), r)]),
                 errs @ (case r of None \<Rightarrow> [] | Some err \<Rightarrow> [err]))"
proof -
  let ?ex = "findRecordsByNameAndType zone records (DNSName ep) (RecordType ep)"
  have hd: "?ex ! 0 = hd ?ex" using assms(2) by (cases ?ex) auto
  show ?thesis
    using assms hd
    by (cases "updateRecord c (rec_ID (hd ?ex)) (createRequest zone name (RecordType ep) (RecordTTL ep) target) s")
       (auto simp: createTarget_def Let_def logged_updateRecord split: option.splits)
qed

lemma createTarget_create:
  assumes "findExactRecord (findRecordsByNameAndType zone records (DNSName ep) (RecordType ep)) target = ''''"
    and "\<not> (length (findRecordsByNameAndType zone records (DNSName ep) (RecordType ep)) = 1
            \<and> length (Targets ep) = 1)"
  shows "\<exists>r s'. createRecord c (createRequest zone name (RecordType ep) (RecordTTL ep) target) s = (r, s')
           \<and> createTarget (logged c) zone records ep name target ((s, l), errs)
              = ((s', l @ [(CreateRecord (createRequest zone name (RecordType ep) (RecordTTL ep) target), r)]),
                 errs @ (case r of None \<Rightarrow> []
                         | Some err \<Rightarrow> if err = ErrorResponse 2302 then [] else [err]))"
proof -
  let ?rec = "createRequest zone name (RecordType ep) (RecordTTL ep) target"
  from createOrExists_logged[of c ?rec s l errs] obtain s' r where
    1: "createRecord c ?rec s = (r, s')"
       "createOrExists (logged c) ?rec ((s, l), errs)
          = ((s', l @ [(CreateRecord ?rec, r)]), errs @ recordedErrors [(CreateRecord ?rec, r)])"
    by blast
  have 2: "recordedErrors [(CreateRecord ?rec, r)]
          = (case r of None \<Rightarrow> [] | Some err \<Rightarrow> if err = ErrorResponse 2302 then [] else [err])"
    by (simp add: recordedErrors_def isObjectExistsError_iff split: option.splits)
  have "createTarget (logged c) zone records ep name target ((s, l), errs)
          = createOrExists (logged c) ?rec ((s, l), errs)"
    using assms by (auto simp: createTarget_def Let_def)
  then show ?thesis using 1 2 by auto
qed

lemma createTarget_logged:
  "\<exists>s' new. createTarget (logged c) zone records ep name target ((s, l), errs)
              = ((s', l @ new), errs @ recordedErrors new)
      \<and> map fst new =
          (if findExactRecord (findRecordsByNameAndType zone records (DNSName ep) (RecordType ep)) target \<noteq> ''''
           then []
           else if length (findRecordsByNameAndType zone records (DNSName ep) (RecordType ep)) = 1
                   \<and> length (Targets ep) = 1
           then [UpdateRecord (rec_ID (hd (findRecordsByNameAndType zone records (DNSName ep) (RecordType ep))))
                              (createRequest zone name (RecordType ep) (RecordTTL ep) target)]
           else [CreateRecord (createRequest zone name (RecordType ep) (RecordTTL ep) target)])"
proof -
  let ?ex = "findRecordsByNameAndType zone records (DNSName ep) (RecordType ep)"
  let ?rec = "createRequest zone name (RecordType ep) (RecordTTL ep) target"
  consider (skip) "findExactRecord ?ex target \<noteq> ''''"
    | (upd) "findExactRecord ?ex target = ''''" "length ?ex = 1" "length (Targets ep) = 1"
    | (cre) "findExactRecord ?ex target = ''''" "\<not> (length ?ex = 1 \<and> length (Targets ep) = 1)"
    by blast
  then show ?thesis
  proof cases
    case skip
    then show ?thesis
      using createTarget_skip[OF skip, of "logged c" name "((s, l), errs)"]
      by (intro exI[of _ s] exI[of _ "[]"]) simp
  next
    case upd
    from createTarget_update[OF upd, of c name s l errs] obtain r s' where
      "createTarget (logged c) zone records ep name target ((s, l), errs)
              = ((s', l @ [(UpdateRecord (rec_ID (hd ?ex)) ?rec, r)]),
                 errs @ (case r of None \<Rightarrow> [] | Some err \<Rightarrow> [err]))" by blast
    moreover have "recordedErrors [(UpdateRecord (rec_ID (hd ?ex)) ?rec, r)]
        = (case r of None \<Rightarrow> [] | Some err \<Rightarrow> [err])"
      by (simp add: recordedErrors_def split: option.splits)
    ultimately show ?thesis
      using upd by (intro exI[of _ s'] exI[of _ "[(UpdateRecord (rec_ID (hd ?ex)) ?rec, r)]"]) simp
  next
    case cre
    from createTarget_create[OF cre, of c name s l errs] obtain r s' where
      "createTarget (logged c) zone records ep name target ((s, l), errs)
              = ((s', l @ [(CreateRecord ?rec, r)]),
                 errs @ (case r of None \<Rightarrow> []
                         | Some err \<Rightarrow> if err = ErrorResponse 2302 then [] else [err]))" by blast
    moreover have "recordedErrors [(CreateRecord ?rec, r)]
        = (case r of None \<Rightarrow> [] | Some err \<Rightarrow> if err = ErrorResponse 2302 then [] else [err])"
      by (simp add: recordedErrors_def isObjectExistsError_iff split: option.splits)
    ultimately show ?thesis
      using cre by (intro exI[of _ s'] exI[of _ "[(CreateRecord ?rec, r)]"]) auto
  qed
qed

lemma cachedRecords_hit:
  "cache zone = Some records \<Longrightarrow> cachedRecords c zone (s, errs, cache) = (Some records, (s, errs, cache))"
  by (simp add: cachedRecords_def)

lemma cachedRecords_miss:
  assumes "cache zone = None" and "getRecords c zone s = (Inr records, s')"
  shows "cachedRecords (logged c) zone ((s, l), errs, cache)
           = (Some records, ((s', l @ [(GetRecords zone, None)]), errs, cache(zone \<mapsto> records)))"
  using assms by (simp add: cachedRecords_def logged_getRecords)

lemma cachedRecords_fail:
  assumes "cache zone = None" and "getRecords c zone s = (Inl err, s')"
  shows "cachedRecords (logged c) zone ((s, l), errs, cache)
           = (None, ((s', l @ [(GetRecords zone, Some err)]), errs @ [err], cache))"
  using assms by (simp add: cachedRecords_def logged_getRecords)

lemma createEndpoint_no_zone:
  "getZone zones ep = (zone, Some err) \<Longrightarrow>
     createEndpoint c zones ep (s, errs, cache) = (s, errs @ [err], cache)"
  by (simp add: createEndpoint_def)

lemma createEndpoint_no_records:
  assumes "getZone zones ep = (zone, None)" and "cachedRecords c zone st = (None, st')"
  shows "createEndpoint c zones ep st = st'"
  using assms by (cases st) (simp add: createEndpoint_def)

lemma createEndpoint_targets:
  assumes "getZone zones ep = (zone, None)"
    and "cachedRecords c zone st = (Some records, (s1, errs1, cache1))"
  shows "createEndpoint c zones ep st =
           (case fold (createTarget c zone records ep (extractRecordName (DNSName ep) zone))
                      (Targets ep) (s1, errs1) of
              (s', errs') \<Rightarrow> (s', errs', cache1))"
  using assms by (cases st) (simp add: createEndpoint_def Let_def)

lemma createEndpoint_logged:
  assumes "getZone zones ep = (zone, None)"
    and "cachedRecords (logged c) zone st = (Some records, ((s1, l1), errs1, cache1))"
  shows "\<exists>s' new.
           createEndpoint (logged c) zones ep st
             = ((s', l1 @ new), errs1 @ recordedErrors new, cache1)
           \<and> map fst new =
               concat (map (\<lambda>target.
                  if findExactRecord (findRecordsByNameAndType zone records (DNSName ep) (RecordType ep)) target \<noteq> ''''
                  then []
                  else if length (findRecordsByNameAndType zone records (DNSName ep) (RecordType ep)) = 1
                          \<and> length (Targets ep) = 1
                  then [UpdateRecord (rec_ID (hd (findRecordsByNameAndType zone records (DNSName ep) (RecordType ep))))
                          (createRequest zone (extractRecordName (DNSName ep) zone) (RecordType ep) (RecordTTL ep) target)]
                  else [CreateRecord
                          (createRequest zone (extractRecordName (DNSName ep) zone) (RecordType ep) (RecordTTL ep) target)])
                 (Targets ep))"
proof -
  let ?name = "extractRecordName (DNSName ep) zone"
  let ?ex = "findRecordsByNameAndType zone records (DNSName ep) (RecordType ep)"
  let ?plan = "\<lambda>target.
                  if findExactRecord ?ex target \<noteq> '''' then []
                  else if length ?ex = 1 \<and> length (Targets ep) = 1
                  then [UpdateRecord (rec_ID (hd ?ex))
                          (createRequest zone ?name (RecordType ep) (RecordTTL ep) target)]
                  else [CreateRecord (createRequest zone ?name (RecordType ep) (RecordTTL ep) target)]"
  have "\<exists>s' new. fold (createTarget (logged c) zone records ep ?name) (Targets ep) ((s1, l1), errs1)
              = ((s', l1 @ new), errs1 @ recordedErrors new)
           \<and> map fst new = concat (map ?plan (Targets ep))"
    by (rule fold_issues) (rule createTarget_logged)
  then obtain s' new where
    f: "fold (createTarget (logged c) zone records ep ?name) (Targets ep) ((s1, l1), errs1)
              = ((s', l1 @ new), errs1 @ recordedErrors new)"
    and m: "map fst new = concat (map ?plan (Targets ep))" by blast
  have "createEndpoint (logged c) zones ep st = ((s', l1 @ new), errs1 @ recordedErrors new, cache1)"
    unfolding createEndpoint_targets[OF assms] f by simp
  with m show ?thesis by blast
qed

text \<open>
  Claim C2. In the Create phase an endpoint whose zone does not resolve only adds the
  error. Otherwise the snapshot of the zone is the cached one, or, when the phase has
  not cached the zone yet, the one \<open>getRecords\<close> answers (a failure of that call is
  recorded and the endpoint abandoned). Every target of the endpoint is decided against
  this one snapshot, with the name resolved from the endpoint and the zone; the records
  \<open>existing\<close> are those of the snapshot with the endpoint's type and resolved name. A
  target whose content \<open>findExactRecord\<close> finds among them is skipped: no call, no error
  (with identifiers that are not empty this is exactly when a cached record has that
  name, type and content). Otherwise, when one record exists and the endpoint has one
  target, that record is updated with the new content and TTL, and a failure is recorded.
  Otherwise a record is created, and a failure is recorded unless it is the registrar's
  error 2302. The calls of the endpoint are these, target by target, and nothing else.
\<close>

theorem createEndpoint_decision:
  "let existing = findRecordsByNameAndType zone records (DNSName ep) (RecordType ep);
       rec = \<lparr>req_Domain = zone, req_Name = name, req_Type = RecordType ep,
              req_TTL = RecordTTL ep, req_Content = target, req_Priority = 0\<rparr>;
       result = createTarget (logged c) zone records ep name target ((s, l), errs)
   in existing = filter (\<lambda>r. rec_Type r = RecordType ep
                            \<and> rec_Name r = extractRecordName (DNSName ep) zone) records
    \<and> ((\<forall>r\<in>set records. rec_ID r \<noteq> '''') \<longrightarrow>
          (findExactRecord existing target \<noteq> '''') =
          (\<exists>r\<in>set records. rec_Type r = RecordType ep
              \<and> rec_Name r = extractRecordName (DNSName ep) zone \<and> rec_Content r = target))
    \<and> (findExactRecord existing target \<noteq> '''' \<longrightarrow> result = ((s, l), errs))
    \<and> (findExactRecord existing target = '''' \<and> length existing = 1 \<and> length (Targets ep) = 1 \<longrightarrow>
          (\<exists>r s'. updateRecord c (rec_ID (hd existing)) rec s = (r, s')
             \<and> result = ((s', l @ [(UpdateRecord (rec_ID (hd existing)) rec, r)]),
                          errs @ (case r of None \<Rightarrow> [] | Some err \<Rightarrow> [err]))))
    \<and> (findExactRecord existing target = ''''
          \<and> \<not> (length existing = 1 \<and> length (Targets ep) = 1) \<longrightarrow>
          (\<exists>r s'. createRecord c rec s = (r, s')
             \<and> result = ((s', l @ [(CreateRecord rec, r)]),
                          errs @ (case r of None \<Rightarrow> []
                                  | Some err \<Rightarrow> if err = ErrorResponse 2302 then [] else [err]))))
    \<and> (getZone zones ep = (zone, Some err) \<longrightarrow>
          createEndpoint (logged c) zones ep ((s, l), errs, cache) = ((s, l), errs @ [err], cache))
    \<and> (cache zone = Some records \<longrightarrow>
          cachedRecords (logged c) zone ((s, l), errs, cache)
            = (Some records, ((s, l), errs, cache)))
    \<and> (cache zone = None \<and> getRecords c zone s = (Inr records, sf) \<longrightarrow>
          cachedRecords (logged c) zone ((s, l), errs, cache)
            = (Some records, ((sf, l @ [(GetRecords zone, None)]), errs, cache(zone \<mapsto> records))))
    \<and> (getZone zones ep = (zone, None) \<and> cache zone = None
          \<and> getRecords c zone s = (Inl err, sf) \<longrightarrow>
          createEndpoint (logged c) zones ep ((s, l), errs, cache)
            = ((sf, l @ [(GetRecords zone, Some err)]), errs @ [err], cache))
    \<and> (getZone zones ep = (zone, None)
          \<and> cachedRecords (logged c) zone ((s, l), errs, cache)
              = (Some records, ((sf, lf), errsf, cachef)) \<longrightarrow>
          createEndpoint (logged c) zones ep ((s, l), errs, cache) =
            (case fold (createTarget (logged c) zone records ep (extractRecordName (DNSName ep) zone))
                       (Targets ep) ((sf, lf), errsf) of
               (st, errs') \<Rightarrow> (st, errs', cachef))
          \<and> (\<exists>s' new.
                createEndpoint (logged c) zones ep ((s, l), errs, cache)
                  = ((s', lf @ new), errsf @ recordedErrors new, cachef)
                \<and> map fst new =
                    concat (map (\<lambda>t.
                       if findExactRecord existing t \<noteq> '''' then []
                       else if length existing = 1 \<and> length (Targets ep) = 1
                       then [UpdateRecord (rec_ID (hd existing))
                               \<lparr>req_Domain = zone, req_Name = extractRecordName (DNSName ep) zone,
                                req_Type = RecordType ep, req_TTL = RecordTTL ep,
                                req_Content = t, req_Priority = 0\<rparr>]
                       else [CreateRecord
                               \<lparr>req_Domain = zone, req_Name = extractRecordName (DNSName ep) zone,
                                req_Type = RecordType ep, req_TTL = RecordTTL ep,
                                req_Content = t, req_Priority = 0\<rparr>])
                      (Targets ep))))"
proof -
  let ?ex = "findRecordsByNameAndType zone records (DNSName ep) (RecordType ep)"
  let ?P = "\<lambda>r. rec_Type r = RecordType ep \<and> rec_Name r = extractRecordName (DNSName ep) zone"
  have rq: "createRequest zone name (RecordType ep) (RecordTTL ep) target =
        \<lparr>req_Domain = zone, req_Name = name, req_Type = RecordType ep,
              req_TTL = RecordTTL ep, req_Content = target, req_Priority = 0\<rparr>"
    by (simp add: createRequest_def)
  have 1: "?ex = filter ?P records" by (rule findRecordsByNameAndType_filter)
  have 2: "(\<forall>r\<in>set records. rec_ID r \<noteq> '''') \<longrightarrow>
          (findExactRecord ?ex target \<noteq> '''') =
          (\<exists>r\<in>set records. rec_Type r = RecordType ep
              \<and> rec_Name r = extractRecordName (DNSName ep) zone \<and> rec_Content r = target)"
  proof
    assume a: "\<forall>r\<in>set records. rec_ID r \<noteq> ''''"
    then have "\<forall>r\<in>set (filter ?P records). rec_ID r \<noteq> ''''" by simp
    from findExactRecord_found[OF this, of target]
    show "(findExactRecord ?ex target \<noteq> '''') =
          (\<exists>r\<in>set records. rec_Type r = RecordType ep
              \<and> rec_Name r = extractRecordName (DNSName ep) zone \<and> rec_Content r = target)"
      unfolding 1 by auto
  qed
  have 3: "findExactRecord ?ex target \<noteq> '''' \<longrightarrow>
             createTarget (logged c) zone records ep name target ((s, l), errs) = ((s, l), errs)"
    using createTarget_skip[where zone = zone and records = records and ep = ep
        and target = target and c = "logged c" and name = name and st = "((s, l), errs)"]
    by blast
  have 4: "findExactRecord ?ex target = '''' \<and> length ?ex = 1 \<and> length (Targets ep) = 1 \<longrightarrow>
          (\<exists>r s'. updateRecord c (rec_ID (hd ?ex))
                     (createRequest zone name (RecordType ep) (RecordTTL ep) target) s = (r, s')
             \<and> createTarget (logged c) zone records ep name target ((s, l), errs)
                = ((s', l @ [(UpdateRecord (rec_ID (hd ?ex))
                               (createRequest zone name (RecordType ep) (RecordTTL ep) target), r)]),
                          errs @ (case r of None \<Rightarrow> [] | Some err \<Rightarrow> [err])))"
    using createTarget_update[where zone = zone and records = records and ep = ep
        and target = target and c = c and name = name and s = s and l = l and errs = errs]
    by blast
  have 5: "findExactRecord ?ex target = ''''
          \<and> \<not> (length ?ex = 1 \<and> length (Targets ep) = 1) \<longrightarrow>
          (\<exists>r s'. createRecord c (createRequest zone name (RecordType ep) (RecordTTL ep) target) s = (r, s')
             \<and> createTarget (logged c) zone records ep name target ((s, l), errs)
                = ((s', l @ [(CreateRecord (createRequest zone name (RecordType ep) (RecordTTL ep) target), r)]),
                          errs @ (case r of None \<Rightarrow> []
                                  | Some err \<Rightarrow> if err = ErrorResponse 2302 then [] else [err])))"
    using createTarget_create[where zone = zone and records = records and ep = ep
        and target = target and c = c and name = name and s = s and l = l and errs = errs]
    by blast
  have 6: "getZone zones ep = (zone, Some err) \<longrightarrow>
          createEndpoint (logged c) zones ep ((s, l), errs, cache) = ((s, l), errs @ [err], cache)"
    using createEndpoint_no_zone[where zones = zones and ep = ep and zone = zone and err = err
        and c = "logged c" and s = "(s, l)" and errs = errs and cache = cache]
    by blast
  have 7: "cache zone = Some records \<longrightarrow>
          cachedRecords (logged c) zone ((s, l), errs, cache)
            = (Some records, ((s, l), errs, cache))"
    using cachedRecords_hit[where cache = cache and zone = zone and records = records
        and c = "logged c" and s = "(s, l)" and errs = errs]
    by blast
  have 8: "cache zone = None \<and> getRecords c zone s = (Inr records, sf) \<longrightarrow>
          cachedRecords (logged c) zone ((s, l), errs, cache)
            = (Some records, ((sf, l @ [(GetRecords zone, None)]), errs, cache(zone \<mapsto> records)))"
    using cachedRecords_miss[where cache = cache and zone = zone and records = records
        and c = c and s = s and s' = sf and l = l and errs = errs]
    by blast
  have 9: "getZone zones ep = (zone, None) \<and> cache zone = None
          \<and> getRecords c zone s = (Inl err, sf) \<longrightarrow>
          createEndpoint (logged c) zones ep ((s, l), errs, cache)
            = ((sf, l @ [(GetRecords zone, Some err)]), errs @ [err], cache)"
  proof
    assume a: "getZone zones ep = (zone, None) \<and> cache zone = None
          \<and> getRecords c zone s = (Inl err, sf)"
    then have "cachedRecords (logged c) zone ((s, l), errs, cache)
           = (None, ((sf, l @ [(GetRecords zone, Some err)]), errs @ [err], cache))"
      by (intro cachedRecords_fail) auto
    with a show "createEndpoint (logged c) zones ep ((s, l), errs, cache)
            = ((sf, l @ [(GetRecords zone, Some err)]), errs @ [err], cache)"
      by (intro createEndpoint_no_records) auto
  qed
  have 10: "getZone zones ep = (zone, None)
          \<and> cachedRecords (logged c) zone ((s, l), errs, cache)
              = (Some records, ((sf, lf), errsf, cachef)) \<longrightarrow>
          createEndpoint (logged c) zones ep ((s, l), errs, cache) =
            (case fold (createTarget (logged c) zone records ep (extractRecordName (DNSName ep) zone))
                       (Targets ep) ((sf, lf), errsf) of
               (st, errs') \<Rightarrow> (st, errs', cachef))
          \<and> (\<exists>s' new.
                createEndpoint (logged c) zones ep ((s, l), errs, cache)
                  = ((s', lf @ new), errsf @ recordedErrors new, cachef)
                \<and> map fst new =
                    concat (map (\<lambda>t.
                       if findExactRecord ?ex t \<noteq> '''' then []
                       else if length ?ex = 1 \<and> length (Targets ep) = 1
                       then [UpdateRecord (rec_ID (hd ?ex))
                               \<lparr>req_Domain = zone, req_Name = extractRecordName (DNSName ep) zone,
                                req_Type = RecordType ep, req_TTL = RecordTTL ep,
                                req_Content = t, req_Priority = 0\<rparr>]
                       else [CreateRecord
                               \<lparr>req_Domain = zone, req_Name = extractRecordName (DNSName ep) zone,
                                req_Type = RecordType ep, req_TTL = RecordTTL ep,
                                req_Content = t, req_Priority = 0\<rparr>])
                      (Targets ep)))"
  proof
    assume a: "getZone zones ep = (zone, None)
          \<and> cachedRecords (logged c) zone ((s, l), errs, cache)
              = (Some records, ((sf, lf), errsf, cachef))"
    then have z: "getZone zones ep = (zone, None)"
      and k: "cachedRecords (logged c) zone ((s, l), errs, cache)
              = (Some records, ((sf, lf), errsf, cachef))" by blast+
    show "createEndpoint (logged c) zones ep ((s, l), errs, cache) =
            (case fold (createTarget (logged c) zone records ep (extractRecordName (DNSName ep) zone))
                       (Targets ep) ((sf, lf), errsf) of
               (st, errs') \<Rightarrow> (st, errs', cachef))
          \<and> (\<exists>s' new.
                createEndpoint (logged c) zones ep ((s, l), errs, cache)
                  = ((s', lf @ new), errsf @ recordedErrors new, cachef)
                \<and> map fst new =
                    concat (map (\<lambda>t.
                       if findExactRecord ?ex t \<noteq> '''' then []
                       else if length ?ex = 1 \<and> length (Targets ep) = 1
                       then [UpdateRecord (rec_ID (hd ?ex))
                               \<lparr>req_Domain = zone, req_Name = extractRecordName (DNSName ep) zone,
                                req_Type = RecordType ep, req_TTL = RecordTTL ep,
                                req_Content = t, req_Priority = 0\<rparr>]
                       else [CreateRecord
                               \<lparr>req_Domain = zone, req_Name = extractRecordName (DNSName ep) zone,
                                req_Type = RecordType ep, req_TTL = RecordTTL ep,
                                req_Content = t, req_Priority = 0\<rparr>])
                      (Targets ep)))"
      using createEndpoint_targets[OF z k] createEndpoint_logged[OF z k, unfolded createRequest_def]
      by (intro conjI)
  qed
  show ?thesis
    unfolding Let_def using 1 2 3 4[unfolded rq] 5[unfolded rq] 6 7 8 9 10 by (intro conjI)
qed

theorem createEndpoint_decision_witness:
  "(\<exists>s' new.
      createEndpoint (logged mock_client) [''example.com''] ep_foo_new ((w_one, []), [], Map.empty)
        = ((s', [(GetRecords ''example.com'', None)] @ new), recordedErrors new,
           Map.empty(''example.com'' \<mapsto> liveRecords w_one ''example.com''))
      \<and> map fst new =
          [UpdateRecord ''0'' \<lparr>req_Domain = ''example.com'', req_Name = ''foo'', req_Type = ''A'',
                               req_TTL = 300, req_Content = ''2.2.2.2'', req_Priority = 0\<rparr>])
   \<and> (\<exists>s' new.
      createEndpoint (logged mock_client) [''example.com''] ep_foo_two ((w_one, []), [], Map.empty)
        = ((s', [(GetRecords ''example.com'', None)] @ new), recordedErrors new,
           Map.empty(''example.com'' \<mapsto> liveRecords w_one ''example.com''))
      \<and> map fst new =
          [CreateRecord \<lparr>req_Domain = ''example.com'', req_Name = ''foo'', req_Type = ''A'',
                         req_TTL = 60, req_Content = ''2.2.2.2'', req_Priority = 0\<rparr>])"
proof -
  let ?r0 = "\<lparr>rec_ID = ''0'', rec_Name = ''foo'', rec_Type = ''A'', rec_Content = ''1.1.1.1'',
              rec_TTL = 60, rec_Priority = 0\<rparr>"
  let ?plan = "\<lambda>ep t.
     if findExactRecord (findRecordsByNameAndType ''example.com'' [?r0] (DNSName ep) (RecordType ep)) t \<noteq> ''''
     then []
     else if length (findRecordsByNameAndType ''example.com'' [?r0] (DNSName ep) (RecordType ep)) = 1
             \<and> length (Targets ep) = 1
     then [UpdateRecord (rec_ID (hd (findRecordsByNameAndType ''example.com'' [?r0] (DNSName ep) (RecordType ep))))
             \<lparr>req_Domain = ''example.com'', req_Name = extractRecordName (DNSName ep) ''example.com'',
              req_Type = RecordType ep, req_TTL = RecordTTL ep,
              req_Content = t, req_Priority = 0\<rparr>]
     else [CreateRecord
             \<lparr>req_Domain = ''example.com'', req_Name = extractRecordName (DNSName ep) ''example.com'',
              req_Type = RecordType ep, req_TTL = RecordTTL ep,
              req_Content = t, req_Priority = 0\<rparr>]"
  have lv: "liveRecords w_one ''example.com'' = [?r0]"
    by (simp add: liveRecords_def mock_getRecords_def w_one_def)
  have z1: "getZone [''example.com''] ep_foo_new = (''example.com'', None)" by code_simp
  have z2: "getZone [''example.com''] ep_foo_two = (''example.com'', None)" by code_simp
  have k: "cachedRecords (logged mock_client) ''example.com'' ((w_one, []), [], Map.empty)
             = (Some [?r0], ((w_one, [(GetRecords ''example.com'', None)]), [],
                             Map.empty(''example.com'' \<mapsto> [?r0])))"
    by (simp add: cachedRecords_def logged_getRecords mock_client_def mock_getRecords_def w_one_def)
  have n1: "extractRecordName (DNSName ep_foo_new) ''example.com'' = ''foo''"
    by (simp add: ep_foo_new_def extractRecordName_foo)
  have n2: "extractRecordName (DNSName ep_foo_two) ''example.com'' = ''foo''"
    by (simp add: ep_foo_two_def extractRecordName_foo)
  have e1: "findRecordsByNameAndType ''example.com'' [?r0] (DNSName ep_foo_new) (RecordType ep_foo_new) = [?r0]"
    by (simp add: findRecordsByNameAndType_def n1) (simp add: ep_foo_new_def)
  have e2: "findRecordsByNameAndType ''example.com'' [?r0] (DNSName ep_foo_two) (RecordType ep_foo_two) = [?r0]"
    by (simp add: findRecordsByNameAndType_def n2) (simp add: ep_foo_two_def)
  have p1: "concat (map (?plan ep_foo_new) (Targets ep_foo_new)) =
          [UpdateRecord ''0'' \<lparr>req_Domain = ''example.com'', req_Name = ''foo'', req_Type = ''A'',
                               req_TTL = 300, req_Content = ''2.2.2.2'', req_Priority = 0\<rparr>]"
    unfolding e1 n1 by (simp add: ep_foo_new_def)
  have p2: "concat (map (?plan ep_foo_two) (Targets ep_foo_two)) =
          [CreateRecord \<lparr>req_Domain = ''example.com'', req_Name = ''foo'', req_Type = ''A'',
                         req_TTL = 60, req_Content = ''2.2.2.2'', req_Priority = 0\<rparr>]"
    unfolding e2 n2 by (simp add: ep_foo_two_def)
  have "getZone [''example.com''] ep_foo_new = (''example.com'', None)
          \<and> cachedRecords (logged mock_client) ''example.com'' ((w_one, []), [], Map.empty)
              = (Some [?r0], ((w_one, [(GetRecords ''example.com'', None)]), [],
                              Map.empty(''example.com'' \<mapsto> [?r0])))
        \<longrightarrow>
          createEndpoint (logged mock_client) [''example.com''] ep_foo_new ((w_one, []), [], Map.empty) =
            (case fold (createTarget (logged mock_client) ''example.com'' [?r0] ep_foo_new
                          (extractRecordName (DNSName ep_foo_new) ''example.com''))
                       (Targets ep_foo_new) ((w_one, [(GetRecords ''example.com'', None)]), []) of
               (st, errs') \<Rightarrow> (st, errs', Map.empty(''example.com'' \<mapsto> [?r0])))
          \<and> (\<exists>s' new.
                createEndpoint (logged mock_client) [''example.com''] ep_foo_new ((w_one, []), [], Map.empty)
                  = ((s', [(GetRecords ''example.com'', None)] @ new), [] @ recordedErrors new,
                     Map.empty(''example.com'' \<mapsto> [?r0]))
                \<and> map fst new = concat (map (?plan ep_foo_new) (Targets ep_foo_new)))"
    using createEndpoint_decision[where zones = "[''example.com'']" and ep = ep_foo_new
         and zone = "''example.com''" and c = mock_client and s = w_one and l = "[]"
         and errs = "[]" and cache = Map.empty and records = "[?r0]" and sf = w_one
         and lf = "[(GetRecords ''example.com'', None)]" and errsf = "[]"
         and cachef = "Map.empty(''example.com'' \<mapsto> [?r0])", unfolded Let_def,
         THEN conjunct2, THEN conjunct2, THEN conjunct2, THEN conjunct2, THEN conjunct2,
         THEN conjunct2, THEN conjunct2, THEN conjunct2, THEN conjunct2]
    .
  with z1 k have a: "\<exists>s' new.
                createEndpoint (logged mock_client) [''example.com''] ep_foo_new ((w_one, []), [], Map.empty)
                  = ((s', [(GetRecords ''example.com'', None)] @ new), [] @ recordedErrors new,
                     Map.empty(''example.com'' \<mapsto> [?r0]))
                \<and> map fst new = concat (map (?plan ep_foo_new) (Targets ep_foo_new))"
    by blast
  have "getZone [''example.com''] ep_foo_two = (''example.com'', None)
          \<and> cachedRecords (logged mock_client) ''example.com'' ((w_one, []), [], Map.empty)
              = (Some [?r0], ((w_one, [(GetRecords ''example.com'', None)]), [],
                              Map.empty(''example.com'' \<mapsto> [?r0])))
        \<longrightarrow>
          createEndpoint (logged mock_client) [''example.com''] ep_foo_two ((w_one, []), [], Map.empty) =
            (case fold (createTarget (logged mock_client) ''example.com'' [?r0] ep_foo_two
                          (extractRecordName (DNSName ep_foo_two) ''example.com''))
                       (Targets ep_foo_two) ((w_one, [(GetRecords ''example.com'', None)]), []) of
               (st, errs') \<Rightarrow> (st, errs', Map.empty(''example.com'' \<mapsto> [?r0])))
          \<and> (\<exists>s' new.
                createEndpoint (logged mock_client) [''example.com''] ep_foo_two ((w_one, []), [], Map.empty)
                  = ((s', [(GetRecords ''example.com'', None)] @ new), [] @ recordedErrors new,
                     Map.empty(''example.com'' \<mapsto> [?r0]))
                \<and> map fst new = concat (map (?plan ep_foo_two) (Targets ep_foo_two)))"
    using createEndpoint_decision[where zones = "[''example.com'']" and ep = ep_foo_two
         and zone = "''example.com''" and c = mock_client and s = w_one and l = "[]"
         and errs = "[]" and cache = Map.empty and records = "[?r0]" and sf = w_one
         and lf = "[(GetRecords ''example.com'', None)]" and errsf = "[]"
         and cachef = "Map.empty(''example.com'' \<mapsto> [?r0])", unfolded Let_def,
         THEN conjunct2, THEN conjunct2, THEN conjunct2, THEN conjunct2, THEN conjunct2,
         THEN conjunct2, THEN conjunct2, THEN conjunct2, THEN conjunct2]
    .
  with z2 k have b: "\<exists>s' new.
                createEndpoint (logged mock_client) [''example.com''] ep_foo_two ((w_one, []), [], Map.empty)
                  = ((s', [(GetRecords ''example.com'', None)] @ new), [] @ recordedErrors new,
                     Map.empty(''example.com'' \<mapsto> [?r0]))
                \<and> map fst new = concat (map (?plan ep_foo_two) (Targets ep_foo_two))"
    by blast
  show ?thesis
    unfolding lv using a[unfolded p1 append_Nil] b[unfolded p2 append_Nil] by (intro conjI)
qed

section \<open>The fallback of the Update phase\<close>

lemma updateFallbackTarget_logged:
  "\<exists>s' new. updateFallbackTarget (logged c) zone name newEp existing target ((s, l), errs)
              = ((s', l @ new), errs @ recordedErrors new)
      \<and> map fst new =
          (if findExactRecord existing target \<noteq> '''' then []
           else [CreateRecord (createRequest zone name (RecordType newEp) (RecordTTL newEp) target)])"
proof (cases "findExactRecord existing target \<noteq> ''''")
  case True
  then show ?thesis
    by (intro exI[of _ s] exI[of _ "[]"]) (simp add: updateFallbackTarget_def)
next
  case False
  let ?rec = "createRequest zone name (RecordType newEp) (RecordTTL newEp) target"
  from createOrExists_logged[of c ?rec s l errs] obtain s' r where
    "createOrExists (logged c) ?rec ((s, l), errs)
          = ((s', l @ [(CreateRecord ?rec, r)]), errs @ recordedErrors [(CreateRecord ?rec, r)])"
    by blast
  then show ?thesis
    using False
    by (intro exI[of _ s'] exI[of _ "[(CreateRecord ?rec, r)]"]) (simp add: updateFallbackTarget_def)
qed

lemma concat_map_if:
  "concat (map (\<lambda>t. if P t then [] else [g t]) ts) = map g (filter (\<lambda>t. \<not> P t) ts)"
  by (induction ts) simp_all

lemma recordedErrors_creates:
  "(\<forall>op\<in>set (map fst new). \<exists>rec. op = CreateRecord rec) \<Longrightarrow>
   recordedErrors new =
     concat (map (\<lambda>(op, r). case r of None \<Rightarrow> []
                            | Some e \<Rightarrow> if e = ErrorResponse 2302 then [] else [e]) new)"
proof (induction new)
  case Nil show ?case by simp
next
  case (Cons x xs)
  obtain op r where x: "x = (op, r)" by (cases x)
  from Cons.prems x obtain rec where op: "op = CreateRecord rec" by auto
  have "recordedErrors (x # xs) = recordedErrors [x] @ recordedErrors xs"
    using recordedErrors_append[of "[x]" xs] by simp
  moreover have "recordedErrors [x] =
      (case r of None \<Rightarrow> [] | Some e \<Rightarrow> if e = ErrorResponse 2302 then [] else [e])"
    by (simp add: recordedErrors_def x op isObjectExistsError_iff split: option.splits)
  moreover have "recordedErrors xs = concat (map (\<lambda>(op, r). case r of None \<Rightarrow> []
                            | Some e \<Rightarrow> if e = ErrorResponse 2302 then [] else [e]) xs)"
    using Cons by simp
  ultimately show ?case by (simp add: x)
qed

lemma updateFallback_logged:
  "\<exists>s' new. updateFallback (logged c) zone name records newEp ((s, l), errs)
              = ((s', l @ new), errs @ recordedErrors new)
      \<and> map fst new =
          map (\<lambda>target. CreateRecord (createRequest zone name (RecordType newEp) (RecordTTL newEp) target))
              (filter (\<lambda>target. findExactRecord
                         (findRecordsByNameAndType zone records (DNSName newEp) (RecordType newEp))
                         target = '''')
                      (Targets newEp))"
proof -
  let ?ex = "findRecordsByNameAndType zone records (DNSName newEp) (RecordType newEp)"
  let ?plan = "\<lambda>target. if findExactRecord ?ex target \<noteq> '''' then []
           else [CreateRecord (createRequest zone name (RecordType newEp) (RecordTTL newEp) target)]"
  have "\<exists>s' new. fold (updateFallbackTarget (logged c) zone name newEp ?ex) (Targets newEp) ((s, l), errs)
              = ((s', l @ new), errs @ recordedErrors new)
      \<and> map fst new = concat (map ?plan (Targets newEp))"
    by (rule fold_issues) (rule updateFallbackTarget_logged)
  then show ?thesis
    unfolding updateFallback_def Let_def concat_map_if by simp
qed

text \<open>
  Claim C4. In the Update phase, when \<open>getRecIDs\<close> fails for the old endpoint, the
  failure is not added to the errors of the pass. The engine issues one create, with the
  TTL of the new endpoint, for every target of the new endpoint whose content
  \<open>findExactRecord\<close> does not find among the cached records of the new name and type, in
  target order, and nothing else; it records the errors these creates answer except error
  2302. With identifiers that are not empty, a target is skipped exactly when a cached
  record has the new endpoint's type and resolved name and the target's content.
\<close>

theorem updatePair_fallback:
  assumes "index (UpdateNew changes) i = Some newEp"
    and "getZone zones oldEp = (zone, None)"
    and "cachedRecords (logged c) zone ((s, l), errs, cache)
           = (Some records, ((s1, l1), errs1, cache1))"
    and "getRecIDs zone records oldEp = Inl err"
  shows "\<exists>s' new.
           updatePair (logged c) zones changes (i, oldEp) ((s, l), errs, cache)
             = Some ((s', l1 @ new),
                     errs1 @ concat (map (\<lambda>(op, r). case r of None \<Rightarrow> []
                                            | Some e \<Rightarrow> if e = ErrorResponse 2302 then [] else [e]) new),
                     cache1)
           \<and> map fst new =
               map (\<lambda>target. CreateRecord
                      \<lparr>req_Domain = zone, req_Name = extractRecordName (DNSName newEp) zone,
                       req_Type = RecordType newEp, req_TTL = RecordTTL newEp,
                       req_Content = target, req_Priority = 0\<rparr>)
                   (filter (\<lambda>target. findExactRecord
                              (findRecordsByNameAndType zone records (DNSName newEp) (RecordType newEp))
                              target = '''')
                           (Targets newEp))
           \<and> ((\<forall>r\<in>set records. rec_ID r \<noteq> '''') \<longrightarrow>
                (\<forall>target.
                   (findExactRecord
                      (findRecordsByNameAndType zone records (DNSName newEp) (RecordType newEp))
                      target \<noteq> '''')
                   = (\<exists>r\<in>set records. rec_Type r = RecordType newEp
                        \<and> rec_Name r = extractRecordName (DNSName newEp) zone
                        \<and> rec_Content r = target)))"
proof -
  let ?name = "extractRecordName (DNSName newEp) zone"
  let ?ex = "findRecordsByNameAndType zone records (DNSName newEp) (RecordType newEp)"
  let ?P = "\<lambda>r. rec_Type r = RecordType newEp \<and> rec_Name r = extractRecordName (DNSName newEp) zone"
  from updateFallback_logged[of c zone ?name records newEp s1 l1 errs1] obtain s' new where
    f: "updateFallback (logged c) zone ?name records newEp ((s1, l1), errs1)
              = ((s', l1 @ new), errs1 @ recordedErrors new)"
    and m: "map fst new =
          map (\<lambda>target. CreateRecord (createRequest zone ?name (RecordType newEp) (RecordTTL newEp) target))
              (filter (\<lambda>target. findExactRecord ?ex target = '''') (Targets newEp))"
    by blast
  have cr: "\<forall>op\<in>set (map fst new). \<exists>rec. op = CreateRecord rec"
    unfolding m by auto
  have r: "recordedErrors new = concat (map (\<lambda>(op, r). case r of None \<Rightarrow> []
                            | Some e \<Rightarrow> if e = ErrorResponse 2302 then [] else [e]) new)"
    by (rule recordedErrors_creates[OF cr])
  have u: "updatePair (logged c) zones changes (i, oldEp) ((s, l), errs, cache)
             = Some ((s', l1 @ new), errs1 @ recordedErrors new, cache1)"
    using assms f by (simp add: updatePair_def Let_def)
  have x: "(\<forall>r\<in>set records. rec_ID r \<noteq> '''') \<longrightarrow>
                (\<forall>target. (findExactRecord ?ex target \<noteq> '''')
                   = (\<exists>r\<in>set records. rec_Type r = RecordType newEp
                        \<and> rec_Name r = extractRecordName (DNSName newEp) zone
                        \<and> rec_Content r = target))"
  proof (intro impI allI)
    fix target
    assume a: "\<forall>r\<in>set records. rec_ID r \<noteq> ''''"
    then have "\<forall>r\<in>set (filter ?P records). rec_ID r \<noteq> ''''" by simp
    from findExactRecord_found[OF this, of target]
    show "(findExactRecord ?ex target \<noteq> '''')
                   = (\<exists>r\<in>set records. rec_Type r = RecordType newEp
                        \<and> rec_Name r = extractRecordName (DNSName newEp) zone
                        \<and> rec_Content r = target)"
      unfolding findRecordsByNameAndType_filter by auto
  qed
  show ?thesis
    using u[unfolded r] m[unfolded createRequest_def] x
    by (intro exI[of _ s'] exI[of _ new] conjI)
qed

theorem updatePair_fallback_witness:
  "getRecIDs ''example.com'' [] ep_foo_one = Inl IncompleteMapping
   \<and> (\<exists>s' new.
         updatePair (logged mock_client) [''example.com''] changes_update (0, ep_foo_one)
           ((w_empty, []), [], Map.empty)
           = Some ((s', [(GetRecords ''example.com'', None)] @ new),
                   concat (map (\<lambda>(op, r). case r of None \<Rightarrow> []
                                  | Some e \<Rightarrow> if e = ErrorResponse 2302 then [] else [e]) new),
                   Map.empty(''example.com'' \<mapsto> []))
         \<and> map fst new =
             [CreateRecord \<lparr>req_Domain = ''example.com'', req_Name = ''foo'', req_Type = ''A'',
                            req_TTL = 60, req_Content = ''1.1.1.1'', req_Priority = 0\<rparr>,
              CreateRecord \<lparr>req_Domain = ''example.com'', req_Name = ''foo'', req_Type = ''A'',
                            req_TTL = 60, req_Content = ''2.2.2.2'', req_Priority = 0\<rparr>])"
proof -
  have i: "index (UpdateNew changes_update) 0 = Some ep_foo_two"
    by (simp add: index_def changes_update_def)
  have z: "getZone [''example.com''] ep_foo_one = (''example.com'', None)"
    by code_simp
  have c: "cachedRecords (logged mock_client) ''example.com'' ((w_empty, []), [], Map.empty)
             = (Some [], ((w_empty, [(GetRecords ''example.com'', None)]), [],
                          Map.empty(''example.com'' \<mapsto> [])))"
    by (simp add: cachedRecords_def logged_getRecords mock_client_def mock_getRecords_def w_empty_def)
  have g: "getRecIDs ''example.com'' [] ep_foo_one = Inl IncompleteMapping"
    by (simp add: getRecIDs_def ep_foo_one_def)
  have n: "extractRecordName (DNSName ep_foo_two) ''example.com'' = ''foo''"
    by (simp add: ep_foo_two_def extractRecordName_foo)
  from updatePair_fallback[OF i z c g]
  have "\<exists>s' new.
         updatePair (logged mock_client) [''example.com''] changes_update (0, ep_foo_one)
           ((w_empty, []), [], Map.empty)
           = Some ((s', [(GetRecords ''example.com'', None)] @ new),
                   concat (map (\<lambda>(op, r). case r of None \<Rightarrow> []
                                  | Some e \<Rightarrow> if e = ErrorResponse 2302 then [] else [e]) new),
                   Map.empty(''example.com'' \<mapsto> []))
         \<and> map fst new =
             [CreateRecord \<lparr>req_Domain = ''example.com'', req_Name = ''foo'', req_Type = ''A'',
                            req_TTL = 60, req_Content = ''1.1.1.1'', req_Priority = 0\<rparr>,
              CreateRecord \<lparr>req_Domain = ''example.com'', req_Name = ''foo'', req_Type = ''A'',
                            req_TTL = 60, req_Content = ''2.2.2.2'', req_Priority = 0\<rparr>]"
    by (simp add: extractRecordName_foo findRecordsByNameAndType_def ep_foo_two_def)
  with g show ?thesis
    by (intro conjI)
qed

section \<open>Uniqueness of records\<close>

text \<open>
  The creates of the Create phase and of the fallback path are probed: against a snapshot
  whose identifiers are not empty (every snapshot of the in-memory registrar is one),
  each is for a name, type and content that no record of the snapshot has.
\<close>

lemma in_concat_map: "x \<in> set (concat (map f ts)) \<Longrightarrow> \<exists>t. x \<in> set (f t)"
  by auto

lemma probe_absent:
  assumes "\<forall>r\<in>set records. rec_ID r \<noteq> ''''"
    and "findExactRecord (findRecordsByNameAndType zone records dnsName recordType) target = ''''"
  shows "requestKey (createRequest zone (extractRecordName dnsName zone) recordType ttl target)
           \<notin> set (map recordKey records)"
proof -
  let ?P = "\<lambda>r. rec_Type r = recordType \<and> rec_Name r = extractRecordName dnsName zone"
  have "\<forall>r\<in>set (filter ?P records). rec_ID r \<noteq> ''''" using assms(1) by simp
  from findExactRecord_found[OF this, of target] assms(2)
  have "\<not> (\<exists>r\<in>set (filter ?P records). rec_Content r = target)"
    unfolding findRecordsByNameAndType_filter by simp
  then show ?thesis
    by (auto simp: requestKey_def recordKey_def createRequest_def)
qed

lemma sibling_creates_probed:
  assumes "\<forall>r\<in>set records. rec_ID r \<noteq> ''''"
  shows "(\<exists>s' new.
            fold (createTarget (logged c) zone records ep (extractRecordName (DNSName ep) zone))
                 (Targets ep) ((s, l), errs)
              = ((s', l @ new), errs @ recordedErrors new)
            \<and> (\<forall>rec. CreateRecord rec \<in> set (map fst new)
                  \<longrightarrow> requestKey rec \<notin> set (map recordKey records)))
       \<and> (\<exists>s' new.
            updateFallback (logged c) zone (extractRecordName (DNSName newEp) zone) records newEp
                 ((s, l), errs)
              = ((s', l @ new), errs @ recordedErrors new)
            \<and> (\<forall>rec. CreateRecord rec \<in> set (map fst new)
                  \<longrightarrow> requestKey rec \<notin> set (map recordKey records)))"
proof (intro conjI)
  let ?name = "extractRecordName (DNSName ep) zone"
  let ?ex = "findRecordsByNameAndType zone records (DNSName ep) (RecordType ep)"
  let ?plan = "\<lambda>target.
          (if findExactRecord ?ex target \<noteq> '''' then []
           else if length ?ex = 1 \<and> length (Targets ep) = 1
           then [UpdateRecord (rec_ID (hd ?ex)) (createRequest zone ?name (RecordType ep) (RecordTTL ep) target)]
           else [CreateRecord (createRequest zone ?name (RecordType ep) (RecordTTL ep) target)])"
  have "\<exists>s' new. fold (createTarget (logged c) zone records ep ?name) (Targets ep) ((s, l), errs)
              = ((s', l @ new), errs @ recordedErrors new)
           \<and> map fst new = concat (map ?plan (Targets ep))"
    by (rule fold_issues) (rule createTarget_logged)
  then obtain s' new where
    f: "fold (createTarget (logged c) zone records ep ?name) (Targets ep) ((s, l), errs)
              = ((s', l @ new), errs @ recordedErrors new)"
    and m: "map fst new = concat (map ?plan (Targets ep))" by blast
  have "\<forall>rec. CreateRecord rec \<in> set (map fst new)
                  \<longrightarrow> requestKey rec \<notin> set (map recordKey records)"
  proof (intro allI impI)
    fix rec assume "CreateRecord rec \<in> set (map fst new)"
    then have "CreateRecord rec \<in> set (concat (map ?plan (Targets ep)))"
      unfolding m .
    then have "\<exists>target. CreateRecord rec \<in> set (?plan target)"
      by (rule in_concat_map)
    then obtain target where t: "CreateRecord rec \<in> set (?plan target)" ..
    then have "findExactRecord ?ex target = ''''"
      and "rec = createRequest zone ?name (RecordType ep) (RecordTTL ep) target"
      by (auto split: if_splits)
    then show "requestKey rec \<notin> set (map recordKey records)"
      using probe_absent[OF assms] by blast
  qed
  with f show "\<exists>s' new.
            fold (createTarget (logged c) zone records ep ?name) (Targets ep) ((s, l), errs)
              = ((s', l @ new), errs @ recordedErrors new)
            \<and> (\<forall>rec. CreateRecord rec \<in> set (map fst new)
                  \<longrightarrow> requestKey rec \<notin> set (map recordKey records))"
    by blast
next
  let ?name = "extractRecordName (DNSName newEp) zone"
  let ?ex = "findRecordsByNameAndType zone records (DNSName newEp) (RecordType newEp)"
  from updateFallback_logged[of c zone ?name records newEp s l errs] obtain s' new where
    f: "updateFallback (logged c) zone ?name records newEp ((s, l), errs)
              = ((s', l @ new), errs @ recordedErrors new)"
    and m: "map fst new =
          map (\<lambda>target. CreateRecord (createRequest zone ?name (RecordType newEp) (RecordTTL newEp) target))
              (filter (\<lambda>target. findExactRecord ?ex target = '''') (Targets newEp))"
    by blast
  have "\<forall>rec. CreateRecord rec \<in> set (map fst new)
                  \<longrightarrow> requestKey rec \<notin> set (map recordKey records)"
  proof (intro allI impI)
    fix rec assume "CreateRecord rec \<in> set (map fst new)"
    then obtain target where "findExactRecord ?ex target = ''''"
      and "rec = createRequest zone ?name (RecordType newEp) (RecordTTL newEp) target"
      unfolding m by auto
    then show "requestKey rec \<notin> set (map recordKey records)"
      using probe_absent[OF assms] by blast
  qed
  with f show "\<exists>s' new.
            updateFallback (logged c) zone ?name records newEp ((s, l), errs)
              = ((s', l @ new), errs @ recordedErrors new)
            \<and> (\<forall>rec. CreateRecord rec \<in> set (map fst new)
                  \<longrightarrow> requestKey rec \<notin> set (map recordKey records))"
    by blast
qed

lemma mock_getRecords_ids:
  "mock_getRecords zone w = (Inr records, w') \<Longrightarrow> \<forall>r\<in>set records. rec_ID r \<noteq> ''''"
  by (auto simp: mock_getRecords_def split: option.splits)


lemma Create_phase_stale_snapshot:
  "uniqueRecords (liveRecords w_empty ''example.com'')
   \<and> (case ApplyChanges mock_client changes_create_twice w_empty of
         None \<Rightarrow> False
       | Some (r, w) \<Rightarrow> r = None \<and> \<not> uniqueRecords (liveRecords w ''example.com''))"
  by code_simp

end
